theory Spec2Isabelle
  imports Complex_Main
begin

section \<open>Data model of \<^verbatim>\<open>cogs/beer_tracker.py\<close>\<close>

text \<open>
  The cog keeps one MongoDB document per user in the collection \<^verbatim>\<open>beer_tracker\<close>.
  A document is a Python dict; the keys the code reads with \<^verbatim>\<open>.get\<close> (and so tolerates
  to be absent) are optional fields here, the keys it reads with \<^verbatim>\<open>[...]\<close> raise
  \<^verbatim>\<open>KeyError\<close> when absent. \<^verbatim>\<open>beers\<close> is read both ways, so it is optional too.

  A value of the key \<^verbatim>\<open>type\<close> and a command argument annotated
  \<^verbatim>\<open>Optional[Literal[...]]\<close> is Python's \<^verbatim>\<open>None\<close> or a string.

  A datetime is an integer number of microseconds since 0001-01-01 00:00:00 (the least
  datetime of Python). A stored \<^verbatim>\<open>timestamp\<close> counts them in UTC, an aware datetime of the
  zone \<^verbatim>\<open>prague_tz\<close> counts them on the wall clock of that zone: two aware datetimes with
  the same \<^verbatim>\<open>tzinfo\<close> are compared and subtracted by their wall clock fields.
\<close>

text \<open>
  The exceptions that the commands can raise; \<open>NameError\<close> stands for the use of a local
  variable that no branch has assigned (\<^verbatim>\<open>UnboundLocalError\<close> is one).
\<close>

datatype py_error = KeyError | IndexError | NameError | ZeroDivisionError

datatype pyval = PyNone | PyStr string

record beer =
  beer_id :: string
  timestamp :: int
  btype :: "pyval option"

record user_data =
  user_id :: int
  username :: string
  beers :: "beer list option"
  total_beers :: "int option"
  total_ciders :: "int option"

type_synonym collection = "user_data list"

text \<open>\<^verbatim>\<open>d.get(key, default)\<close> on an optional field.\<close>

definition get_default :: "'a option \<Rightarrow> 'a \<Rightarrow> 'a" where
  "get_default field dflt = (case field of None \<Rightarrow> dflt | Some v \<Rightarrow> v)"

text \<open>
  The two comprehension filters that every command repeats:
  \<^verbatim>\<open>b.get("type", "beer") == "beer"\<close> and \<^verbatim>\<open>b.get("type") == "cider"\<close>.
\<close>

definition type_is_beer :: "beer \<Rightarrow> bool" where
  "type_is_beer b = (get_default (btype b) (PyStr ''beer'') = PyStr ''beer'')"

definition type_is_cider :: "beer \<Rightarrow> bool" where
  "type_is_cider b = (get_default (btype b) PyNone = PyStr ''cider'')"

subsection \<open>The store primitives\<close>

text \<open>
  The collection is the list of its documents in natural order. \<^verbatim>\<open>find_one\<close> returns the
  first document that matches; the query \<^verbatim>\<open>{"beers.id": x}\<close> matches a document whose array
  \<^verbatim>\<open>beers\<close> has an element with that \<^verbatim>\<open>id\<close>.
\<close>

definition find_one_user_id :: "collection \<Rightarrow> int \<Rightarrow> user_data option" where
  "find_one_user_id db uid = find (\<lambda>u. user_id u = uid) db"

definition has_beer_id :: "string \<Rightarrow> user_data \<Rightarrow> bool" where
  "has_beer_id x u =
     (case beers u of None \<Rightarrow> False | Some bs \<Rightarrow> list_ex (\<lambda>b. beer_id b = x) bs)"

definition find_one_beers_id :: "collection \<Rightarrow> string \<Rightarrow> user_data option" where
  "find_one_beers_id db x = find (has_beer_id x) db"

text \<open>\<^verbatim>\<open>replace_one({"user_id": uid}, doc, upsert=True)\<close>.\<close>

fun replace_one_upsert :: "collection \<Rightarrow> int \<Rightarrow> user_data \<Rightarrow> collection" where
  "replace_one_upsert [] uid doc = [doc]"
| "replace_one_upsert (u # us) uid doc =
     (if user_id u = uid then doc # us else u # replace_one_upsert us uid doc)"

text \<open>
  \<^verbatim>\<open>update_one({"user_id": uid}, {"$set": {"beers": .., "total_beers": .., "total_ciders": ..}})\<close>.
\<close>

fun update_one_set :: "collection \<Rightarrow> int \<Rightarrow> beer list \<Rightarrow> int \<Rightarrow> int \<Rightarrow> collection" where
  "update_one_set [] uid bs tb tc = []"
| "update_one_set (u # us) uid bs tb tc =
     (if user_id u = uid
      then u\<lparr>beers := Some bs, total_beers := Some tb, total_ciders := Some tc\<rparr> # us
      else u # update_one_set us uid bs tb tc)"

section \<open>\<^verbatim>\<open>log_beer\<close>\<close>

text \<open>
  The command's inputs are the target user's id and name, the drink type, and the two
  values it draws from its environment: \<^verbatim>\<open>str(uuid.uuid4())\<close> and \<^verbatim>\<open>datetime.now()\<close>.
  It returns the collection afterwards and the total it announces, or the exception.
\<close>

datatype log_message = Beers_total int | Ciders_total int

definition log_beer ::
  "collection \<Rightarrow> int \<Rightarrow> string \<Rightarrow> pyval \<Rightarrow> string \<Rightarrow> int
     \<Rightarrow> collection \<times> (py_error + log_message)" where
  "log_beer db target_id target_name drink_type new_uuid current_time =
     (let user_data0 =
            (case find_one_user_id db target_id of
               Some u \<Rightarrow> u
             | None \<Rightarrow> \<lparr>user_id = target_id, username = target_name, beers = Some [],
                        total_beers = Some 0, total_ciders = Some 0\<rparr>)
      in case beers user_data0 of
           None \<Rightarrow> (db, Inl KeyError)
         | Some bs \<Rightarrow>
             let user_data1 = user_data0\<lparr>beers := Some (bs @
                    [\<lparr>beer_id = new_uuid, timestamp = current_time,
                      btype = Some drink_type\<rparr>])\<rparr>;
                 user_data2 =
                    (if drink_type = PyStr ''beer''
                     then user_data1\<lparr>total_beers :=
                            Some (get_default (total_beers user_data1) 0 + 1)\<rparr>
                     else if drink_type = PyStr ''cider''
                     then user_data1\<lparr>total_ciders :=
                            Some (get_default (total_ciders user_data1) 0 + 1)\<rparr>
                     else user_data1);
                 user_data3 = user_data2\<lparr>username := target_name\<rparr>;
                 db' = replace_one_upsert db target_id user_data3
             in (db',
                 if drink_type = PyStr ''beer''
                 then (case total_beers user_data3 of
                         None \<Rightarrow> Inl KeyError | Some n \<Rightarrow> Inr (Beers_total n))
                 else if drink_type = PyStr ''cider''
                 then (case total_ciders user_data3 of
                         None \<Rightarrow> Inl KeyError | Some n \<Rightarrow> Inr (Ciders_total n))
                 else (case total_beers user_data3 of
                         None \<Rightarrow> Inl KeyError | Some n \<Rightarrow> Inr (Beers_total n))))"

section \<open>\<^verbatim>\<open>beer_delete\<close>\<close>

text \<open>
  \<^verbatim>\<open>uuid.UUID(beer_uuid)\<close> belongs to Python's standard library: the command takes as
  \<open>uuid_ok\<close> the set of strings that it parses without \<^verbatim>\<open>ValueError\<close>.

  The command returns the collection afterwards, the calls it made on the collection, in
  order, and the message it sends (or the exception).
\<close>

datatype db_call = Find_one | Update_one

datatype delete_message =
    Invalid_uuid_format
  | No_beer_found
  | Only_your_own_beers
  | Successfully_deleted beer

definition beer_delete ::
  "(string \<Rightarrow> bool) \<Rightarrow> collection \<Rightarrow> int \<Rightarrow> string
     \<Rightarrow> collection \<times> db_call list \<times> (py_error + delete_message)" where
  "beer_delete uuid_ok db interaction_user_id beer_uuid =
     (if \<not> uuid_ok beer_uuid then (db, [], Inr Invalid_uuid_format)
      else (case find_one_beers_id db beer_uuid of
        None \<Rightarrow> (db, [Find_one], Inr No_beer_found)
      | Some user_data \<Rightarrow>
          (if user_id user_data \<noteq> interaction_user_id
           then (db, [Find_one], Inr Only_your_own_beers)
           else (case beers user_data of
             None \<Rightarrow> (db, [Find_one], Inl KeyError)
           | Some bs \<Rightarrow>
               (let updated_beers = filter (\<lambda>b. beer_id b \<noteq> beer_uuid) bs in
                (case find (\<lambda>b. beer_id b = beer_uuid) bs of
                   None \<Rightarrow> (db, [Find_one], Inr No_beer_found)
                 | Some deleted_beer \<Rightarrow>
                     (let total_beers' = int (length (filter type_is_beer updated_beers));
                          total_ciders' = int (length (filter type_is_cider updated_beers))
                      in (update_one_set db (user_id user_data) updated_beers
                            total_beers' total_ciders',
                          [Find_one, Update_one],
                          Inr (Successfully_deleted deleted_beer)))))))))"

section \<open>Python's list operations\<close>

text \<open>
  \<^verbatim>\<open>sorted(xs, key=k, reverse=True)\<close> and \<^verbatim>\<open>xs.sort(key=k, reverse=True)\<close>: CPython reverses
  the list, sorts it with its stable sort and reverses it again.
\<close>

definition py_sorted_reverse :: "('a \<Rightarrow> 'k::linorder) \<Rightarrow> 'a list \<Rightarrow> 'a list" where
  "py_sorted_reverse k xs = rev (sort_key k (rev xs))"

text \<open>\<^verbatim>\<open>xs[start:stop]\<close>: a negative index counts from the end, and both are clamped.\<close>

definition py_slice :: "'a list \<Rightarrow> int \<Rightarrow> int \<Rightarrow> 'a list" where
  "py_slice xs start stop =
     (let n = int (length xs);
          s = (if start < 0 then max (start + n) 0 else min start n);
          e = (if stop < 0 then max (stop + n) 0 else min stop n)
      in take (nat (e - s)) (drop (nat s) xs))"

text \<open>\<^verbatim>\<open>xs[-1]\<close>.\<close>

definition py_last :: "'a list \<Rightarrow> py_error + 'a" where
  "py_last xs = (if xs = [] then Inl IndexError else Inr (last xs))"

text \<open>The truth value of an argument in \<^verbatim>\<open>if period:\<close>.\<close>

definition truthy :: "pyval \<Rightarrow> bool" where
  "truthy v = (case v of PyNone \<Rightarrow> False | PyStr s \<Rightarrow> s \<noteq> [])"

section \<open>Time\<close>

text \<open>
  \<^verbatim>\<open>ts_to_prague_time\<close> reads a naive timestamp as UTC and converts it to the zone
  \<^verbatim>\<open>prague_tz = ZoneInfo("Europe/Prague")\<close>. The zone's table belongs to the system's time
  zone database: \<open>prague_tz\<close> is taken as the function from a UTC instant to the wall clock
  of the zone.
\<close>

definition ts_to_prague_time :: "(int \<Rightarrow> int) \<Rightarrow> int \<Rightarrow> int" where
  "ts_to_prague_time prague_tz ts = prague_tz ts"

definition timedelta_days :: "int \<Rightarrow> int" where
  "timedelta_days d = d * 86400000000"

definition timedelta_weeks :: "int \<Rightarrow> int" where
  "timedelta_weeks w = timedelta_days (7 * w)"

text \<open>\<^verbatim>\<open>now.replace(hour=0, minute=0, second=0, microsecond=0)\<close>.\<close>

definition replace_midnight :: "int \<Rightarrow> int" where
  "replace_midnight now = now - now mod 86400000000"

text \<open>
  \<^verbatim>\<open>len([b for b in beers if ts_to_prague_time(b["timestamp"]) >= cutoff])\<close>, where
  \<^verbatim>\<open>cutoff\<close> is unbound when no branch of the chain over \<^verbatim>\<open>period\<close> assigned it; the
  condition is evaluated only if there is an element.
\<close>

definition count_since :: "(int \<Rightarrow> int) \<Rightarrow> beer list \<Rightarrow> int option \<Rightarrow> py_error + int" where
  "count_since prague_tz bs cutoff =
     (if bs = [] then Inr 0
      else (case cutoff of
              None \<Rightarrow> Inl NameError
            | Some c \<Rightarrow>
                Inr (int (length
                  (filter (\<lambda>b. ts_to_prague_time prague_tz (timestamp b) \<ge> c) bs)))))"

section \<open>\<^verbatim>\<open>my_beers\<close>\<close>

text \<open>
  The message carries what the embed is built from: the page's entries, \<^verbatim>\<open>page\<close>,
  \<^verbatim>\<open>total_pages\<close> and \<^verbatim>\<open>total_beers\<close>.
\<close>

datatype my_beers_message =
    Havent_logged_any
  | Page_doesnt_exist int int
  | Your_beer_logs "beer list" int int int

definition my_beers ::
  "collection \<Rightarrow> int \<Rightarrow> int \<Rightarrow> int \<Rightarrow> pyval \<Rightarrow> py_error + my_beers_message" where
  "my_beers db interaction_user_id limit page drink_type =
     (case find_one_user_id db interaction_user_id of
        None \<Rightarrow> Inr Havent_logged_any
      | Some user_data \<Rightarrow>
          (case beers user_data of
             None \<Rightarrow> Inl KeyError
           | Some bs \<Rightarrow>
               (if bs = [] then Inr Havent_logged_any
                else (case (if drink_type = PyStr ''all'' then Some bs
                            else if drink_type = PyStr ''beer''
                            then Some (filter type_is_beer bs)
                            else if drink_type = PyStr ''cider''
                            then Some (filter type_is_cider bs)
                            else None) of
                        None \<Rightarrow> Inl NameError
                      | Some all_beers0 \<Rightarrow>
                          (let all_beers = py_sorted_reverse timestamp all_beers0;
                               total_beers' = int (length all_beers)
                           in if limit = 0 then Inl ZeroDivisionError
                              else (let total_pages = (total_beers' + limit - 1) div limit
                                    in if page > total_pages
                                       then Inr (Page_doesnt_exist page total_pages)
                                       else (let start_idx = (page - 1) * limit;
                                                 end_idx = start_idx + limit
                                             in Inr (Your_beer_logs
                                                  (py_slice all_beers start_idx end_idx)
                                                  page total_pages total_beers'))))))))"

section \<open>\<^verbatim>\<open>beer_stats\<close>\<close>

definition stats_cutoff :: "int \<Rightarrow> pyval \<Rightarrow> int option" where
  "stats_cutoff now period =
     (if period = PyStr ''day'' then Some (now - timedelta_days 1)
      else if period = PyStr ''week'' then Some (now - timedelta_weeks 1)
      else if period = PyStr ''month'' then Some (now - timedelta_days 30)
      else if period = PyStr ''year'' then Some (now - timedelta_days 365)
      else None)"

datatype stats_message = Hasnt_drunk_any_beers | Has_drunk int

text \<open>\<open>now\<close> is the command's reading \<^verbatim>\<open>datetime.now(prague_tz)\<close>.\<close>

definition beer_stats ::
  "(int \<Rightarrow> int) \<Rightarrow> collection \<Rightarrow> int \<Rightarrow> int \<Rightarrow> pyval \<Rightarrow> pyval
     \<Rightarrow> py_error + stats_message" where
  "beer_stats prague_tz db target_user_id now period drink_type =
     (case find_one_user_id db target_user_id of
        None \<Rightarrow> Inr Hasnt_drunk_any_beers
      | Some user_data \<Rightarrow>
          (case beers user_data of
             None \<Rightarrow> Inl KeyError
           | Some bs0 \<Rightarrow>
               (if bs0 = [] then Inr Hasnt_drunk_any_beers
                else (let bs = (if drink_type = PyStr ''beer'' then filter type_is_beer bs0
                                else if drink_type = PyStr ''cider''
                                then filter type_is_cider bs0
                                else bs0)
                      in if truthy period
                         then (case count_since prague_tz bs (stats_cutoff now period) of
                                 Inl e \<Rightarrow> Inl e
                               | Inr count \<Rightarrow> Inr (Has_drunk count))
                         else if drink_type = PyStr ''all''
                         then Inr (Has_drunk (get_default (total_beers user_data) 0
                                              + get_default (total_ciders user_data) 0))
                         else if drink_type = PyStr ''beer''
                         then Inr (Has_drunk (get_default (total_beers user_data) 0))
                         else if drink_type = PyStr ''cider''
                         then Inr (Has_drunk (get_default (total_ciders user_data) 0))
                         else Inl NameError))))"

section \<open>\<^verbatim>\<open>beer_leaderboard\<close>\<close>

definition leaderboard_cutoff :: "int \<Rightarrow> pyval \<Rightarrow> int option" where
  "leaderboard_cutoff now period =
     (if period = PyStr ''day'' then Some (replace_midnight now)
      else if period = PyStr ''week'' then Some (now - timedelta_weeks 1)
      else if period = PyStr ''month'' then Some (now - timedelta_days 30)
      else if period = PyStr ''year'' then Some (now - timedelta_days 365)
      else None)"

text \<open>
  An entry of the list \<^verbatim>\<open>leaderboard\<close> is the tuple
  \<^verbatim>\<open>(username, total_count, user_id, total_beers, total_ciders)\<close>.
\<close>

type_synonym entry = "string \<times> int \<times> int \<times> int \<times> int"

definition total_count_of :: "entry \<Rightarrow> int" where
  "total_count_of x = fst (snd x)"

text \<open>
  The body of the loop up to the assignment of \<^verbatim>\<open>total_count\<close>, for a document whose
  \<^verbatim>\<open>beers\<close> is the non-empty list \<open>all_beers\<close>; \<open>now\<close> is the reading of the clock that
  this round of the loop takes.
\<close>

definition leaderboard_total_count ::
  "(int \<Rightarrow> int) \<Rightarrow> int \<Rightarrow> pyval \<Rightarrow> pyval \<Rightarrow> user_data \<Rightarrow> beer list \<Rightarrow> py_error + int" where
  "leaderboard_total_count prague_tz now period drink_type user_data all_beers =
     (let bs = (if drink_type = PyStr ''beer'' then filter type_is_beer all_beers
                else if drink_type = PyStr ''cider'' then filter type_is_cider all_beers
                else all_beers)
      in if truthy period
         then count_since prague_tz bs (leaderboard_cutoff now period)
         else if drink_type = PyStr ''all''
         then Inr (get_default (total_beers user_data) 0
                   + get_default (total_ciders user_data) 0)
         else if drink_type = PyStr ''beer''
         then Inr (get_default (total_beers user_data) 0)
         else if drink_type = PyStr ''cider''
         then Inr (get_default (total_ciders user_data) 0)
         else Inl NameError)"

text \<open>
  The loop over \<^verbatim>\<open>all_users\<close>. It reads the clock anew in every round: \<open>clock i\<close> is the
  reading \<^verbatim>\<open>datetime.now(prague_tz)\<close> of the round of the \<open>i\<close>-th document.
\<close>

fun leaderboard_loop ::
  "(int \<Rightarrow> int) \<Rightarrow> (nat \<Rightarrow> int) \<Rightarrow> pyval \<Rightarrow> pyval \<Rightarrow> nat \<Rightarrow> user_data list \<Rightarrow> entry list
     \<Rightarrow> py_error + entry list" where
  "leaderboard_loop prague_tz clock period drink_type i [] leaderboard = Inr leaderboard"
| "leaderboard_loop prague_tz clock period drink_type i (user_data # rest) leaderboard =
     (case beers user_data of
        None \<Rightarrow> leaderboard_loop prague_tz clock period drink_type (Suc i) rest leaderboard
      | Some all_beers \<Rightarrow>
          (if all_beers = []
           then leaderboard_loop prague_tz clock period drink_type (Suc i) rest leaderboard
           else (case leaderboard_total_count prague_tz (clock i) period drink_type
                        user_data all_beers of
                   Inl e \<Rightarrow> Inl e
                 | Inr total_count \<Rightarrow>
                     (if total_count > 0
                      then (case total_beers user_data of
                              None \<Rightarrow> Inl KeyError
                            | Some tb \<Rightarrow>
                                (case total_ciders user_data of
                                   None \<Rightarrow> Inl KeyError
                                 | Some tc \<Rightarrow>
                                     leaderboard_loop prague_tz clock period drink_type
                                       (Suc i) rest
                                       (leaderboard @
                                          [(username user_data, total_count,
                                            user_id user_data, tb, tc)])))
                      else leaderboard_loop prague_tz clock period drink_type (Suc i) rest
                             leaderboard))))"

datatype leaderboard_message =
    No_beers_logged_yet
  | No_beers_logged_in_the_last pyval
  | Top_beer_drinkers "entry list"

text \<open>\<open>limit\<close> is \<^verbatim>\<open>Optional\<close>: \<^verbatim>\<open>leaderboard[:None]\<close> is the whole list.\<close>

definition beer_leaderboard ::
  "(int \<Rightarrow> int) \<Rightarrow> collection \<Rightarrow> (nat \<Rightarrow> int) \<Rightarrow> pyval \<Rightarrow> int option \<Rightarrow> pyval
     \<Rightarrow> py_error + leaderboard_message" where
  "beer_leaderboard prague_tz all_users clock period limit drink_type =
     (if all_users = [] then Inr No_beers_logged_yet
      else (case leaderboard_loop prague_tz clock period drink_type 0 all_users [] of
              Inl e \<Rightarrow> Inl e
            | Inr leaderboard0 \<Rightarrow>
                (let leaderboard1 = py_sorted_reverse total_count_of leaderboard0;
                     leaderboard = (case limit of
                                      None \<Rightarrow> leaderboard1
                                    | Some l \<Rightarrow> py_slice leaderboard1 0 l)
                 in if leaderboard = [] then Inr (No_beers_logged_in_the_last period)
                    else Inr (Top_beer_drinkers leaderboard))))"

section \<open>\<^verbatim>\<open>beer_last\<close>\<close>

text \<open>
  The command up to its choice of \<^verbatim>\<open>last_beer\<close>, which the message is formatted from.
\<close>

datatype last_message = Hasnt_drunk_any_yet | Last_beer_was beer

definition beer_last :: "collection \<Rightarrow> int \<Rightarrow> pyval \<Rightarrow> py_error + last_message" where
  "beer_last db target_user_id drink_type =
     (case find_one_user_id db target_user_id of
        None \<Rightarrow> Inr Hasnt_drunk_any_yet
      | Some user_data \<Rightarrow>
          (case beers user_data of
             None \<Rightarrow> Inl KeyError
           | Some bs \<Rightarrow>
               (if bs = [] then Inr Hasnt_drunk_any_yet
                else (case (if drink_type = PyStr ''all'' then py_last bs
                            else if drink_type = PyStr ''beer''
                            then py_last (filter type_is_beer bs)
                            else if drink_type = PyStr ''cider''
                            then py_last (filter type_is_cider bs)
                            else Inl NameError) of
                        Inl e \<Rightarrow> Inl e
                      | Inr last_beer \<Rightarrow> Inr (Last_beer_was last_beer)))))"

section \<open>Sequences of commands\<close>

text \<open>
  The two commands that write, with their arguments, and a run of a sequence of them from
  a collection; a command that raises leaves the collection as the exception left it.
\<close>

datatype command =
    Log_beer int string pyval string int
  | Beer_delete int string

fun run_command :: "(string \<Rightarrow> bool) \<Rightarrow> collection \<Rightarrow> command \<Rightarrow> collection" where
  "run_command uuid_ok db (Log_beer target_id target_name drink_type new_uuid current_time) =
     fst (log_beer db target_id target_name drink_type new_uuid current_time)"
| "run_command uuid_ok db (Beer_delete caller beer_uuid) =
     fst (beer_delete uuid_ok db caller beer_uuid)"

definition run_commands :: "(string \<Rightarrow> bool) \<Rightarrow> collection \<Rightarrow> command list \<Rightarrow> collection" where
  "run_commands uuid_ok db cmds = foldl (run_command uuid_ok) db cmds"

fun logs_beer_or_cider :: "command \<Rightarrow> bool" where
  "logs_beer_or_cider (Log_beer _ _ drink_type _ _) =
     (drink_type = PyStr ''beer'' \<or> drink_type = PyStr ''cider'')"
| "logs_beer_or_cider (Beer_delete _ _) = True"

section \<open>The specification's notions\<close>

text \<open>
  The invariant of a user's record: both counters are there and equal the number of
  events of their type, an event without a type counting as a beer, and every event is a
  beer or a cider.
\<close>

definition counters_match :: "user_data \<Rightarrow> bool" where
  "counters_match u =
     (case beers u of
        None \<Rightarrow> False
      | Some events \<Rightarrow>
          total_beers u = Some (int (length (filter type_is_beer events)))
          \<and> total_ciders u = Some (int (length (filter type_is_cider events)))
          \<and> list_all (\<lambda>e. type_is_beer e \<or> type_is_cider e) events)"

text \<open>
  The invariants of the store: the user id is the key of a record, and an event id is
  unique in the whole store.
\<close>

definition all_beer_ids :: "collection \<Rightarrow> string list" where
  "all_beer_ids db = concat (map (\<lambda>u. map beer_id (get_default (beers u) [])) db)"

definition store_keys_unique :: "collection \<Rightarrow> bool" where
  "store_keys_unique db = (distinct (map user_id db) \<and> distinct (all_beer_ids db))"

text \<open>
  \<open>filterByType\<close>, in the specification's words: \<open>All\<close> is the identity, otherwise the
  events of that type are kept, an event without a type being a beer.
\<close>

definition filterByType :: "pyval \<Rightarrow> beer list \<Rightarrow> beer list" where
  "filterByType ty events =
     (if ty = PyStr ''all'' then events
      else filter (\<lambda>e. get_default (btype e) (PyStr ''beer'') = ty) events)"

text \<open>The number of events of a type at or after a cutoff, on the zone's wall clock.\<close>

definition window_count :: "(int \<Rightarrow> int) \<Rightarrow> int \<Rightarrow> pyval \<Rightarrow> beer list \<Rightarrow> int" where
  "window_count tz cutoff ty events =
     int (length (filter (\<lambda>e. cutoff \<le> tz (timestamp e)) (filterByType ty events)))"

text \<open>The precomputed total of a type, a missing counter counting as 0.\<close>

definition stored_total :: "pyval \<Rightarrow> user_data \<Rightarrow> int" where
  "stored_total ty u =
     (if ty = PyStr ''all''
      then get_default (total_beers u) 0 + get_default (total_ciders u) 0
      else if ty = PyStr ''beer'' then get_default (total_beers u) 0
      else get_default (total_ciders u) 0)"

definition nonempty_log :: "user_data \<Rightarrow> bool" where
  "nonempty_log u = (case beers u of None \<Rightarrow> False | Some events \<Rightarrow> events \<noteq> [])"

definition has_both_counters :: "user_data \<Rightarrow> bool" where
  "has_both_counters u = (total_beers u \<noteq> None \<and> total_ciders u \<noteq> None)"

text \<open>
  \<open>rank\<close> before sorting: the records in scan order, \<open>count i u\<close> being the ranked count of
  the \<open>i\<close>-th record \<open>u\<close>; a record without events or with the count 0 is dropped.
\<close>

fun kept_entries :: "(nat \<Rightarrow> user_data \<Rightarrow> int) \<Rightarrow> nat \<Rightarrow> user_data list \<Rightarrow> entry list" where
  "kept_entries count i [] = []"
| "kept_entries count i (u # us) =
     (if nonempty_log u \<and> 0 < count i u
      then (username u, count i u, user_id u,
            get_default (total_beers u) 0, get_default (total_ciders u) 0)
           # kept_entries count (Suc i) us
      else kept_entries count (Suc i) us)"

text \<open>The ranked count of the period-filtered leaderboard, for the cutoff of each round.\<close>

definition count_in_window ::
  "(int \<Rightarrow> int) \<Rightarrow> (nat \<Rightarrow> int) \<Rightarrow> pyval \<Rightarrow> nat \<Rightarrow> user_data \<Rightarrow> int" where
  "count_in_window tz cutoff ty i u = window_count tz (cutoff i) ty (get_default (beers u) [])"

definition valid_drink_filter :: "pyval \<Rightarrow> bool" where
  "valid_drink_filter ty = (ty = PyStr ''all'' \<or> ty = PyStr ''beer'' \<or> ty = PyStr ''cider'')"

definition valid_period :: "pyval \<Rightarrow> bool" where
  "valid_period p =
     (p = PyNone \<or> p = PyStr ''day'' \<or> p = PyStr ''week'' \<or> p = PyStr ''month''
      \<or> p = PyStr ''year'')"

text \<open>
  The ranked count of the \<open>i\<close>-th record: without a period the precomputed total of the
  type, with a period the number of events of the type at or after the cutoff of the
  round.
\<close>

definition ranked_count ::
  "(int \<Rightarrow> int) \<Rightarrow> (nat \<Rightarrow> int) \<Rightarrow> pyval \<Rightarrow> pyval \<Rightarrow> nat \<Rightarrow> user_data \<Rightarrow> int" where
  "ranked_count tz clock period ty i u =
     (if period = PyNone then stored_total ty u
      else (case leaderboard_cutoff (clock i) period of
              None \<Rightarrow> 0
            | Some cutoff \<Rightarrow> window_count tz cutoff ty (get_default (beers u) [])))"

text \<open>The message of the leaderboard for a ranking.\<close>

definition leaderboard_message_of :: "pyval \<Rightarrow> entry list \<Rightarrow> leaderboard_message" where
  "leaderboard_message_of period ranking =
     (if ranking = [] then No_beers_logged_in_the_last period else Top_beer_drinkers ranking)"

text \<open>
  The ranking of a period-filtered leaderboard, for the cutoff of each round: the kept
  entries, sorted, cut to the limit.
\<close>

definition ranking_in_window ::
  "(int \<Rightarrow> int) \<Rightarrow> (nat \<Rightarrow> int) \<Rightarrow> pyval \<Rightarrow> int \<Rightarrow> user_data list \<Rightarrow> entry list" where
  "ranking_in_window tz cutoff ty limit all_users =
     take (nat limit) (py_sorted_reverse total_count_of
       (kept_entries (count_in_window tz cutoff ty) 0 all_users))"

section \<open>A sample environment\<close>

text \<open>
  For the examples: the zone as it is in winter, an hour ahead of UTC, and a clock that
  reads the same time in every round of the leaderboard's loop.
\<close>

definition cet :: "int \<Rightarrow> int" where
  "cet ts = ts + 3600000000"

definition steady_clock :: "int \<Rightarrow> nat \<Rightarrow> int" where
  "steady_clock now i = now"

section \<open>Auxiliary facts\<close>

subsection \<open>Filters, sorting and slices\<close>

lemma filterByType_all: "filterByType (PyStr ''all'') bs = bs"
  by (simp add: filterByType_def)

lemma filterByType_beer: "filterByType (PyStr ''beer'') bs = filter type_is_beer bs"
  by (simp add: filterByType_def type_is_beer_def [abs_def])

lemma filterByType_cider: "filterByType (PyStr ''cider'') bs = filter type_is_cider bs"
proof -
  have "get_default (btype e) (PyStr ''beer'') = PyStr ''cider'' \<longleftrightarrow> type_is_cider e" for e
    by (cases "btype e") (simp_all add: get_default_def type_is_cider_def)
  then show ?thesis
    by (simp add: filterByType_def)
qed

lemma py_sorted_reverse_descending:
  "sorted_wrt (\<lambda>a b. k b \<le> k a) (py_sorted_reverse k xs)"
proof -
  have "sorted (map k (sort_key k (rev xs)))"
    by (rule sorted_sort_key)
  then have "sorted_wrt (\<lambda>a b. k a \<le> k b) (sort_key k (rev xs))"
    by (simp add: sorted_map)
  then show ?thesis
    unfolding py_sorted_reverse_def by (simp add: sorted_wrt_rev)
qed

lemma py_sorted_reverse_stable:
  "filter (\<lambda>x. k x = v) (py_sorted_reverse k xs) = filter (\<lambda>x. k x = v) xs"
proof -
  have "filter (\<lambda>x. k x = v) (sort_key k (rev xs)) = filter (\<lambda>x. k x = v) (rev xs)"
    by (rule sort_key_stable)
  then show ?thesis
    unfolding py_sorted_reverse_def by (simp add: rev_filter [symmetric])
qed

lemma length_py_sorted_reverse: "length (py_sorted_reverse k xs) = length xs"
  by (simp add: py_sorted_reverse_def)

lemma set_py_sorted_reverse: "set (py_sorted_reverse k xs) = set xs"
  by (simp add: py_sorted_reverse_def)

lemma py_slice_take_drop:
  "0 \<le> start \<Longrightarrow> 0 \<le> len \<Longrightarrow>
   py_slice xs start (start + len) = take (nat len) (drop (nat start) xs)"
  by (simp add: py_slice_def Let_def min_def)

subsection \<open>Pages\<close>

lemma total_pages_ceiling:
  assumes "0 < (limit::int)"
  shows "(n + limit - 1) div limit = \<lceil>real_of_int n / real_of_int limit\<rceil>"
proof -
  define q where "q = (- n) div limit"
  define r where "r = (- n) mod limit"
  have r: "0 \<le> r" "r < limit"
    using assms by (simp_all add: r_def)
  have "- n = limit * q + r"
    by (simp add: q_def r_def)
  then have "n + limit - 1 = limit * (- q) + (limit - 1 - r)"
    by (simp add: algebra_simps)
  moreover have "0 \<le> limit - 1 - r" "limit - 1 - r < limit"
    using r by simp_all
  ultimately have "(n + limit - 1) div limit = - q"
    by (rule int_div_pos_eq)
  also have "\<dots> = \<lceil>real_of_int n / real_of_int limit\<rceil>"
    by (simp add: q_def ceiling_divide_eq_div)
  finally show ?thesis .
qed

lemma total_pages_zero_iff:
  assumes "0 < (limit::int)" "0 \<le> n"
  shows "(n + limit - 1) div limit = 0 \<longleftrightarrow> n = 0"
proof (cases "n = 0")
  case True
  with assms(1) show ?thesis
    by (simp add: div_pos_pos_trivial)
next
  case False
  with assms have "limit \<le> n + limit - 1"
    by simp
  with assms(1) have "0 < (n + limit - 1) div limit"
    by (simp add: pos_imp_zdiv_pos_iff)
  with False show ?thesis
    by simp
qed

lemma my_beers_paginates:
  assumes "find_one_user_id db uid = Some ud" and "beers ud = Some bs" and "bs \<noteq> []"
    and "valid_drink_filter ty" and "1 \<le> limit" and "1 \<le> page"
  shows "my_beers db uid limit page ty =
     (if (int (length (filterByType ty bs)) + limit - 1) div limit < page
      then Inr (Page_doesnt_exist page ((int (length (filterByType ty bs)) + limit - 1) div limit))
      else Inr (Your_beer_logs
             (take (nat limit) (drop (nat ((page - 1) * limit))
                (py_sorted_reverse timestamp (filterByType ty bs))))
             page ((int (length (filterByType ty bs)) + limit - 1) div limit)
             (int (length (filterByType ty bs)))))"
proof -
  have slice: "py_slice xs ((page - 1) * limit) ((page - 1) * limit + limit)
      = take (nat limit) (drop (nat ((page - 1) * limit)) xs)" for xs :: "beer list"
    using assms(5,6) by (intro py_slice_take_drop) simp_all
  from assms(4) consider "ty = PyStr ''all''" | "ty = PyStr ''beer''" | "ty = PyStr ''cider''"
    unfolding valid_drink_filter_def by blast
  then show ?thesis
  proof cases
    case 1
    with assms(1,2,3,5) show ?thesis
      by (simp add: my_beers_def Let_def slice filterByType_all length_py_sorted_reverse)
  next
    case 2
    with assms(1,2,3,5) show ?thesis
      by (simp add: my_beers_def Let_def slice filterByType_beer length_py_sorted_reverse)
  next
    case 3
    with assms(1,2,3,5) show ?thesis
      by (simp add: my_beers_def Let_def slice filterByType_cider length_py_sorted_reverse)
  qed
qed

subsection \<open>The trailing event\<close>

lemma beer_last_nonempty:
  assumes "find_one_user_id db uid = Some ud" and "beers ud = Some bs"
    and "valid_drink_filter ty" and "filterByType ty bs \<noteq> []"
  shows "beer_last db uid ty = Inr (Last_beer_was (last (filterByType ty bs)))"
proof -
  have nonempty: "bs \<noteq> []"
    using assms(4) by (auto simp: filterByType_def split: if_splits)
  from assms(3) consider "ty = PyStr ''all''" | "ty = PyStr ''beer''" | "ty = PyStr ''cider''"
    unfolding valid_drink_filter_def by blast
  then show ?thesis
  proof cases
    case 1
    with assms nonempty show ?thesis
      by (simp add: beer_last_def py_last_def filterByType_all)
  next
    case 2
    with assms nonempty show ?thesis
      by (simp add: beer_last_def py_last_def filterByType_beer)
  next
    case 3
    with assms nonempty show ?thesis
      by (simp add: beer_last_def py_last_def filterByType_cider)
  qed
qed

lemma sorted_last_greatest:
  "sorted (map f xs) \<Longrightarrow> x \<in> set xs \<Longrightarrow> f x \<le> f (last xs)"
proof (induction xs)
  case Nil
  then show ?case by simp
next
  case (Cons a xs)
  then show ?case
    by (cases "xs = []") auto
qed

subsection \<open>The counters under the writing commands\<close>

lemma find_one_user_id_in_set:
  "find_one_user_id db uid = Some u \<Longrightarrow> u \<in> set db \<and> user_id u = uid"
  unfolding find_one_user_id_def by (induction db) (auto split: if_splits)

lemma find_one_beers_id_in_set:
  "find_one_beers_id db x = Some u \<Longrightarrow> u \<in> set db \<and> has_beer_id x u"
  unfolding find_one_beers_id_def by (induction db) (auto split: if_splits)

lemma set_replace_one_upsert:
  "set (replace_one_upsert db uid doc) \<subseteq> insert doc (set db)"
  by (induction db) auto

lemma set_update_one_set:
  "v \<in> set (update_one_set db uid bs tb tc) \<Longrightarrow>
   v \<in> set db \<or> (\<exists>u \<in> set db. v = u\<lparr>beers := Some bs, total_beers := Some tb, total_ciders := Some tc\<rparr>)"
  by (induction db) (auto split: if_splits)

lemma counters_match_sum:
  assumes "counters_match u"
  shows "\<exists>events tb tc. beers u = Some events \<and> total_beers u = Some tb \<and> total_ciders u = Some tc
           \<and> tb = int (length (filter type_is_beer events))
           \<and> tc = int (length (filter type_is_cider events))
           \<and> tb + tc = int (length events)"
proof -
  from assms obtain events where ev: "beers u = Some events"
    and tb: "total_beers u = Some (int (length (filter type_is_beer events)))"
    and tc: "total_ciders u = Some (int (length (filter type_is_cider events)))"
    and ok: "list_all (\<lambda>e. type_is_beer e \<or> type_is_cider e) events"
    unfolding counters_match_def by (auto split: option.splits)
  have excl: "\<not> (type_is_beer e \<and> type_is_cider e)" for e
    by (cases "btype e") (auto simp: type_is_beer_def type_is_cider_def get_default_def)
  from ok have "length (filter type_is_beer events) + length (filter type_is_cider events)
      = length events"
  proof (induction events)
    case Nil
    then show ?case by simp
  next
    case (Cons e es)
    then show ?case
      using excl [of e] by auto
  qed
  with ev tb tc show ?thesis
    by auto
qed

lemma log_beer_counters_match:
  assumes "list_all counters_match db"
    and "drink_type = PyStr ''beer'' \<or> drink_type = PyStr ''cider''"
  shows "list_all counters_match
           (fst (log_beer db target_id target_name drink_type new_uuid current_time))"
proof -
  define u0 where "u0 = (case find_one_user_id db target_id of
               Some u \<Rightarrow> u
             | None \<Rightarrow> \<lparr>user_id = target_id, username = target_name, beers = Some [],
                        total_beers = Some 0, total_ciders = Some 0\<rparr>)"
  have u0: "counters_match u0"
  proof (cases "find_one_user_id db target_id")
    case None
    then show ?thesis
      by (simp add: u0_def counters_match_def)
  next
    case (Some u)
    then have "u \<in> set db"
      by (simp add: find_one_user_id_in_set)
    with assms(1) Some show ?thesis
      by (simp add: u0_def list_all_iff)
  qed
  then obtain bs where bs: "beers u0 = Some bs"
    and tb: "total_beers u0 = Some (int (length (filter type_is_beer bs)))"
    and tc: "total_ciders u0 = Some (int (length (filter type_is_cider bs)))"
    and ok: "list_all (\<lambda>e. type_is_beer e \<or> type_is_cider e) bs"
    unfolding counters_match_def by (auto split: option.splits)
  define e where "e = \<lparr>beer_id = new_uuid, timestamp = current_time, btype = Some drink_type\<rparr>"
  define u3 where "u3 = (if drink_type = PyStr ''beer''
       then u0\<lparr>beers := Some (bs @ [e]), total_beers := Some (int (length (filter type_is_beer bs)) + 1),
              username := target_name\<rparr>
       else u0\<lparr>beers := Some (bs @ [e]), total_ciders := Some (int (length (filter type_is_cider bs)) + 1),
              username := target_name\<rparr>)"
  have u3: "counters_match u3"
    using assms(2) tb tc ok
    by (auto simp: u3_def counters_match_def e_def type_is_beer_def type_is_cider_def get_default_def)
  have "fst (log_beer db target_id target_name drink_type new_uuid current_time)
      = replace_one_upsert db target_id u3"
    using assms(2) bs tb tc
    by (auto simp: log_beer_def Let_def u0_def [symmetric] u3_def e_def get_default_def)
  moreover have "list_all counters_match (replace_one_upsert db target_id u3)"
    using set_replace_one_upsert [of db target_id u3] assms(1) u3
    by (auto simp: list_all_iff)
  ultimately show ?thesis
    by simp
qed

lemma beer_delete_counters_match:
  assumes "list_all counters_match db"
  shows "list_all counters_match (fst (beer_delete uuid_ok db caller beer_uuid))"
proof (cases "\<exists>u bs b. uuid_ok beer_uuid \<and> find_one_beers_id db beer_uuid = Some u
    \<and> user_id u = caller \<and> beers u = Some bs \<and> find (\<lambda>b. beer_id b = beer_uuid) bs = Some b")
  case False
  then have "fst (beer_delete uuid_ok db caller beer_uuid) = db"
    by (auto simp: beer_delete_def Let_def split: option.splits)
  with assms show ?thesis
    by simp
next
  case True
  then obtain u bs b where ok: "uuid_ok beer_uuid"
    and found: "find_one_beers_id db beer_uuid = Some u"
    and own: "user_id u = caller" and bs: "beers u = Some bs"
    and b: "find (\<lambda>b. beer_id b = beer_uuid) bs = Some b"
    by blast
  let ?bs' = "filter (\<lambda>b. beer_id b \<noteq> beer_uuid) bs"
  let ?tb = "int (length (filter type_is_beer ?bs'))"
  let ?tc = "int (length (filter type_is_cider ?bs'))"
  have result: "fst (beer_delete uuid_ok db caller beer_uuid)
      = update_one_set db (user_id u) ?bs' ?tb ?tc"
    using ok found own bs b by (simp add: beer_delete_def Let_def)
  have "u \<in> set db"
    using found by (simp add: find_one_beers_id_in_set)
  with assms have "counters_match u"
    by (simp add: list_all_iff)
  with bs have types: "list_all (\<lambda>e. type_is_beer e \<or> type_is_cider e) bs"
    by (simp add: counters_match_def)
  have "counters_match v" if "v \<in> set (update_one_set db (user_id u) ?bs' ?tb ?tc)" for v
  proof -
    from set_update_one_set [OF that] show ?thesis
    proof
      assume "v \<in> set db"
      with assms show ?thesis
        by (simp add: list_all_iff)
    next
      assume "\<exists>w \<in> set db. v = w\<lparr>beers := Some ?bs', total_beers := Some ?tb,
          total_ciders := Some ?tc\<rparr>"
      with types show ?thesis
        by (auto simp: counters_match_def list_all_iff)
    qed
  qed
  with result show ?thesis
    by (simp add: list_all_iff)
qed

lemma run_commands_counters_match:
  assumes "list_all counters_match db" and "list_all logs_beer_or_cider cmds"
  shows "list_all counters_match (run_commands uuid_ok db cmds)"
  using assms unfolding run_commands_def
proof (induction cmds arbitrary: db)
  case Nil
  then show ?case by simp
next
  case (Cons c cmds)
  have "list_all counters_match (run_command uuid_ok db c)"
  proof (cases c)
    case (Log_beer t n d i ct)
    with Cons.prems show ?thesis
      by (simp add: log_beer_counters_match)
  next
    case (Beer_delete caller x)
    with Cons.prems show ?thesis
      by (simp add: beer_delete_counters_match)
  qed
  with Cons show ?case
    by simp
qed

subsection \<open>The keys of the store\<close>

lemma has_beer_id_iff: "has_beer_id x w \<longleftrightarrow> x \<in> beer_id ` set (get_default (beers w) [])"
  by (auto simp: has_beer_id_def get_default_def list_ex_iff split: option.splits)

lemma all_beer_ids_Cons:
  "all_beer_ids (w # db) = map beer_id (get_default (beers w) []) @ all_beer_ids db"
  by (simp add: all_beer_ids_def)

lemma has_beer_id_all_beer_ids:
  "u \<in> set db \<Longrightarrow> has_beer_id x u \<Longrightarrow> x \<in> set (all_beer_ids db)"
  by (auto simp: has_beer_id_iff all_beer_ids_def)

lemma unique_owner:
  assumes "distinct (all_beer_ids db)" and "u \<in> set db" and "v \<in> set db"
    and "has_beer_id x u" and "has_beer_id x v"
  shows "u = v"
  using assms
proof (induction db)
  case Nil
  then show ?case by simp
next
  case (Cons w db)
  have disjoint: "\<not> (has_beer_id x w \<and> x \<in> set (all_beer_ids db))"
    using Cons.prems(1) unfolding all_beer_ids_Cons has_beer_id_iff by auto
  have rest: "distinct (all_beer_ids db)"
    using Cons.prems(1) unfolding all_beer_ids_Cons by simp
  show ?case
  proof (cases "u = w")
    case True
    show ?thesis
    proof (cases "v = w")
      case True
      with \<open>u = w\<close> show ?thesis by simp
    next
      case False
      with Cons.prems(3) have "v \<in> set db" by simp
      with Cons.prems(5) have "x \<in> set (all_beer_ids db)"
        by (simp add: has_beer_id_all_beer_ids)
      with disjoint Cons.prems(4) \<open>u = w\<close> show ?thesis by simp
    qed
  next
    case False
    with Cons.prems(2) have u: "u \<in> set db" by simp
    show ?thesis
    proof (cases "v = w")
      case True
      from u Cons.prems(4) have "x \<in> set (all_beer_ids db)"
        by (rule has_beer_id_all_beer_ids)
      with disjoint Cons.prems(5) \<open>v = w\<close> show ?thesis by simp
    next
      case False
      with Cons.prems(3) have "v \<in> set db" by simp
      with Cons.IH [OF rest u _ Cons.prems(4,5)] show ?thesis by simp
    qed
  qed
qed

lemma set_update_one_set_distinct:
  assumes "distinct (map user_id db)" and "u \<in> set db"
  shows "set (update_one_set db (user_id u) bs tb tc)
           = insert (u\<lparr>beers := Some bs, total_beers := Some tb, total_ciders := Some tc\<rparr>)
               (set db - {u})"
  using assms
proof (induction db)
  case Nil
  then show ?case by simp
next
  case (Cons w db)
  show ?case
  proof (cases "user_id w = user_id u")
    case True
    with Cons.prems have "w = u"
      by (auto simp: image_iff)
    moreover from Cons.prems \<open>w = u\<close> have "u \<notin> set db"
      by (auto simp: image_iff)
    ultimately show ?thesis
      using True by auto
  next
    case False
    with Cons.prems have "u \<in> set db" "distinct (map user_id db)" "w \<noteq> u"
      by auto
    with Cons.IH False show ?thesis
      by auto
  qed
qed

lemma find_None_iff_no_owner:
  "find_one_beers_id db x = None \<longleftrightarrow> (\<forall>v \<in> set db. \<not> has_beer_id x v)"
  by (auto simp: find_one_beers_id_def find_None_iff)

lemma beer_delete_success:
  assumes "beer_delete uuid_ok db caller x = (db', calls, Inr (Successfully_deleted b))"
  obtains u bs where "uuid_ok x" and "find_one_beers_id db x = Some u" and "user_id u = caller"
    and "beers u = Some bs"
    and "db' = update_one_set db (user_id u) (filter (\<lambda>b. beer_id b \<noteq> x) bs)
                (int (length (filter type_is_beer (filter (\<lambda>b. beer_id b \<noteq> x) bs))))
                (int (length (filter type_is_cider (filter (\<lambda>b. beer_id b \<noteq> x) bs))))"
  using assms
  by (auto simp: beer_delete_def Let_def split: if_splits option.splits)

text \<open>
  The invariants of the store hold in the empty collection and are kept by both writing
  commands, \<^verbatim>\<open>log_beer\<close> drawing an id that no event of the store has.
\<close>

lemma user_ids_replace_one_upsert:
  "user_id doc = uid \<Longrightarrow>
   map user_id (replace_one_upsert db uid doc)
     = (if uid \<in> set (map user_id db) then map user_id db else map user_id db @ [uid])"
  by (induction db) auto

lemma beer_ids_replace_one_upsert:
  assumes "distinct (all_beer_ids db)" and "new \<notin> set (all_beer_ids db)"
    and "map beer_id (get_default (beers doc) []) =
           (case find_one_user_id db uid of
              None \<Rightarrow> [new]
            | Some u \<Rightarrow> map beer_id (get_default (beers u) []) @ [new])"
  shows "distinct (all_beer_ids (replace_one_upsert db uid doc))
         \<and> set (all_beer_ids (replace_one_upsert db uid doc)) = insert new (set (all_beer_ids db))"
  using assms
proof (induction db)
  case Nil
  then show ?case
    by (simp add: all_beer_ids_def find_one_user_id_def)
next
  case (Cons w db)
  show ?case
  proof (cases "user_id w = uid")
    case True
    with Cons.prems show ?thesis
      by (auto simp: all_beer_ids_Cons find_one_user_id_def)
  next
    case False
    with Cons.prems have "distinct (all_beer_ids (replace_one_upsert db uid doc))
         \<and> set (all_beer_ids (replace_one_upsert db uid doc)) = insert new (set (all_beer_ids db))"
      by (intro Cons.IH) (auto simp: all_beer_ids_Cons find_one_user_id_def)
    with Cons.prems False show ?thesis
      by (auto simp: all_beer_ids_Cons)
  qed
qed

lemma log_beer_keeps_keys_unique:
  assumes "store_keys_unique db" and "new_uuid \<notin> set (all_beer_ids db)"
  shows "store_keys_unique
           (fst (log_beer db target_id target_name drink_type new_uuid current_time))"
proof -
  define u0 where "u0 = (case find_one_user_id db target_id of
               Some u \<Rightarrow> u
             | None \<Rightarrow> \<lparr>user_id = target_id, username = target_name, beers = Some [],
                        total_beers = Some 0, total_ciders = Some 0\<rparr>)"
  have id0: "user_id u0 = target_id"
    by (auto simp: u0_def dest: find_one_user_id_in_set split: option.splits)
  show ?thesis
  proof (cases "beers u0")
    case None
    then have "fst (log_beer db target_id target_name drink_type new_uuid current_time) = db"
      by (simp add: log_beer_def Let_def u0_def [symmetric])
    with assms(1) show ?thesis
      by simp
  next
    case (Some bs)
    then obtain doc where result:
      "fst (log_beer db target_id target_name drink_type new_uuid current_time)
         = replace_one_upsert db target_id doc"
      and doc: "user_id doc = target_id" "beers doc = Some (bs @
          [\<lparr>beer_id = new_uuid, timestamp = current_time, btype = Some drink_type\<rparr>])"
      using id0 by (simp add: log_beer_def Let_def u0_def [symmetric])
    have ids: "map beer_id (get_default (beers doc) []) =
           (case find_one_user_id db target_id of
              None \<Rightarrow> [new_uuid]
            | Some u \<Rightarrow> map beer_id (get_default (beers u) []) @ [new_uuid])"
      using Some doc(2) by (auto simp: u0_def get_default_def split: option.splits)
    from assms(1) have "distinct (map user_id db)" "distinct (all_beer_ids db)"
      by (simp_all add: store_keys_unique_def)
    with beer_ids_replace_one_upsert [OF _ assms(2) ids]
      user_ids_replace_one_upsert [OF doc(1), of db]
    show ?thesis
      unfolding result store_keys_unique_def by auto
  qed
qed

lemma beer_ids_update_one_set:
  assumes "distinct (map user_id db)" and "distinct (all_beer_ids db)"
    and "u \<in> set db" and "beers u = Some bs"
  shows "distinct (all_beer_ids (update_one_set db (user_id u) (filter P bs) tb tc))
         \<and> set (all_beer_ids (update_one_set db (user_id u) (filter P bs) tb tc))
             \<subseteq> set (all_beer_ids db)"
  using assms
proof (induction db)
  case Nil
  then show ?case by simp
next
  case (Cons w db)
  show ?case
  proof (cases "user_id w = user_id u")
    case True
    with Cons.prems have "w = u"
      by (auto simp: image_iff)
    with Cons.prems True show ?thesis
      by (auto simp: all_beer_ids_Cons get_default_def distinct_map_filter)
  next
    case False
    with Cons.prems have "distinct (all_beer_ids (update_one_set db (user_id u) (filter P bs) tb tc))
         \<and> set (all_beer_ids (update_one_set db (user_id u) (filter P bs) tb tc))
             \<subseteq> set (all_beer_ids db)"
      by (intro Cons.IH) (auto simp: all_beer_ids_Cons)
    with Cons.prems False show ?thesis
      by (auto simp: all_beer_ids_Cons)
  qed
qed

lemma user_ids_update_one_set:
  "map user_id (update_one_set db uid bs tb tc) = map user_id db"
  by (induction db) auto

lemma beer_delete_keeps_keys_unique:
  assumes "store_keys_unique db"
  shows "store_keys_unique (fst (beer_delete uuid_ok db caller beer_uuid))"
proof (cases "\<exists>u bs b. uuid_ok beer_uuid \<and> find_one_beers_id db beer_uuid = Some u
    \<and> user_id u = caller \<and> beers u = Some bs \<and> find (\<lambda>b. beer_id b = beer_uuid) bs = Some b")
  case False
  then have "fst (beer_delete uuid_ok db caller beer_uuid) = db"
    by (auto simp: beer_delete_def Let_def split: option.splits)
  with assms show ?thesis
    by simp
next
  case True
  then obtain u bs b where ok: "uuid_ok beer_uuid"
    and found: "find_one_beers_id db beer_uuid = Some u"
    and own: "user_id u = caller" and bs: "beers u = Some bs"
    and b: "find (\<lambda>b. beer_id b = beer_uuid) bs = Some b"
    by blast
  let ?bs' = "filter (\<lambda>b. beer_id b \<noteq> beer_uuid) bs"
  have result: "fst (beer_delete uuid_ok db caller beer_uuid)
      = update_one_set db (user_id u) ?bs'
          (int (length (filter type_is_beer ?bs'))) (int (length (filter type_is_cider ?bs')))"
    using ok found own bs b by (simp add: beer_delete_def Let_def)
  from found have "u \<in> set db"
    by (simp add: find_one_beers_id_in_set)
  with assms bs show ?thesis
    unfolding result store_keys_unique_def
    by (simp add: user_ids_update_one_set beer_ids_update_one_set)
qed

subsection \<open>Counts and the loop of the leaderboard\<close>

lemma typed_beers_filterByType:
  "valid_drink_filter ty \<Longrightarrow>
   (if ty = PyStr ''beer'' then filter type_is_beer bs
    else if ty = PyStr ''cider'' then filter type_is_cider bs
    else bs) = filterByType ty bs"
  unfolding valid_drink_filter_def
  by (auto simp: filterByType_all filterByType_beer filterByType_cider)

lemma count_since_Some:
  "count_since tz bs (Some cutoff)
     = Inr (int (length (filter (\<lambda>e. cutoff \<le> tz (timestamp e)) bs)))"
  by (simp add: count_since_def ts_to_prague_time_def)

lemma leaderboard_total_count_no_period:
  "valid_drink_filter ty \<Longrightarrow>
   leaderboard_total_count tz now PyNone ty u bs = Inr (stored_total ty u)"
  unfolding valid_drink_filter_def
  by (auto simp: leaderboard_total_count_def truthy_def stored_total_def)

lemma leaderboard_total_count_period:
  assumes "valid_drink_filter ty" and "truthy period"
    and "leaderboard_cutoff now period = Some cutoff"
  shows "leaderboard_total_count tz now period ty u bs = Inr (window_count tz cutoff ty bs)"
  using assms(2,3)
  by (simp add: leaderboard_total_count_def typed_beers_filterByType [OF assms(1)]
      count_since_Some window_count_def)

lemma valid_period_cases:
  assumes "valid_period period"
  obtains "period = PyNone"
  | "truthy period" and "\<And>now. leaderboard_cutoff now period \<noteq> None"
      and "\<And>now. stats_cutoff now period \<noteq> None"
  using assms unfolding valid_period_def
  by (auto simp: truthy_def leaderboard_cutoff_def stats_cutoff_def)

lemma leaderboard_total_count_ranked:
  assumes "valid_drink_filter ty" and "valid_period period" and "beers u = Some bs"
  shows "leaderboard_total_count tz (clock i) period ty u bs
           = Inr (ranked_count tz clock period ty i u)"
  using assms(2)
proof (cases rule: valid_period_cases)
  case 1
  with assms(1) show ?thesis
    by (simp add: leaderboard_total_count_no_period ranked_count_def)
next
  case 2
  from 2(2) [of "clock i"] obtain cutoff where c: "leaderboard_cutoff (clock i) period = Some cutoff"
    by blast
  from 2(1) have "period \<noteq> PyNone"
    by (auto simp: truthy_def)
  with leaderboard_total_count_period [OF assms(1) 2(1) c] c assms(3) show ?thesis
    by (simp add: ranked_count_def get_default_def)
qed

lemma leaderboard_loop_complete:
  assumes "\<And>j u bs. beers u = Some bs \<Longrightarrow> bs \<noteq> [] \<Longrightarrow>
             leaderboard_total_count tz (clock j) period ty u bs = Inr (cnt j u)"
    and "\<forall>u \<in> set us. nonempty_log u \<longrightarrow> has_both_counters u"
  shows "leaderboard_loop tz clock period ty i us acc = Inr (acc @ kept_entries cnt i us)"
  using assms(2)
proof (induction us arbitrary: i acc)
  case Nil
  then show ?case by simp
next
  case (Cons u us)
  then have IH: "leaderboard_loop tz clock period ty (Suc i) us acc'
      = Inr (acc' @ kept_entries cnt (Suc i) us)" for acc'
    by simp
  show ?case
  proof (cases "beers u")
    case None
    then show ?thesis
      by (simp add: IH nonempty_log_def)
  next
    case (Some bs)
    show ?thesis
    proof (cases "bs = []")
      case True
      with Some show ?thesis
        by (simp add: IH nonempty_log_def)
    next
      case False
      with Some have ne: "nonempty_log u"
        by (simp add: nonempty_log_def)
      with Cons.prems obtain tb tc' where counters: "total_beers u = Some tb" "total_ciders u = Some tc'"
        by (auto simp: has_both_counters_def)
      from assms(1) [OF Some False]
      have "leaderboard_total_count tz (clock i) period ty u bs = Inr (cnt i u)" .
      with Some False ne counters show ?thesis
        by (simp add: IH get_default_def)
    qed
  qed
qed


lemma leaderboard_loop_KeyError:
  assumes "\<And>j u bs. beers u = Some bs \<Longrightarrow> bs \<noteq> [] \<Longrightarrow>
             leaderboard_total_count tz (clock j) period ty u bs = Inr (cnt j u)"
    and "\<exists>u \<in> set us. nonempty_log u \<and> \<not> has_both_counters u \<and> (\<forall>j. 0 < cnt j u)"
  shows "leaderboard_loop tz clock period ty i us acc = Inl KeyError"
  using assms(2)
proof (induction us arbitrary: i acc)
  case Nil
  then show ?case by simp
next
  case (Cons u us)
  show ?case
  proof (cases "nonempty_log u")
    case False
    with Cons.prems have "\<exists>u \<in> set us. nonempty_log u \<and> \<not> has_both_counters u \<and> (\<forall>j. 0 < cnt j u)"
      by auto
    then have "leaderboard_loop tz clock period ty (Suc i) us acc = Inl KeyError"
      by (rule Cons.IH)
    with False show ?thesis
      by (auto simp: nonempty_log_def split: option.splits)
  next
    case True
    then obtain bs where bs: "beers u = Some bs" "bs \<noteq> []"
      by (auto simp: nonempty_log_def split: option.splits)
    from assms(1) [OF bs]
    have count: "leaderboard_total_count tz (clock i) period ty u bs = Inr (cnt i u)" .
    show ?thesis
    proof (cases "has_both_counters u \<or> \<not> 0 < cnt i u")
      case True
      with Cons.prems have "\<exists>u \<in> set us. nonempty_log u \<and> \<not> has_both_counters u \<and> (\<forall>j. 0 < cnt j u)"
        by auto
      then have "leaderboard_loop tz clock period ty (Suc i) us acc' = Inl KeyError" for acc'
        by (rule Cons.IH)
      with bs count show ?thesis
        by (auto split: option.splits)
    next
      case False
      with bs count show ?thesis
        by (auto simp: has_both_counters_def split: option.splits)
    qed
  qed
qed

lemma beer_leaderboard_complete:
  assumes "valid_drink_filter ty" and "valid_period period" and "all_users \<noteq> []"
    and "\<forall>u \<in> set all_users. nonempty_log u \<longrightarrow> has_both_counters u"
  shows "beer_leaderboard tz all_users clock period limit ty =
           Inr (leaderboard_message_of period
             (case limit of
                None \<Rightarrow> py_sorted_reverse total_count_of
                         (kept_entries (ranked_count tz clock period ty) 0 all_users)
              | Some l \<Rightarrow> py_slice (py_sorted_reverse total_count_of
                         (kept_entries (ranked_count tz clock period ty) 0 all_users)) 0 l))"
proof -
  have "leaderboard_loop tz clock period ty 0 all_users []
      = Inr ([] @ kept_entries (ranked_count tz clock period ty) 0 all_users)"
    by (rule leaderboard_loop_complete [OF leaderboard_total_count_ranked [OF assms(1,2)] assms(4)])
  with assms(3) show ?thesis
    by (simp add: beer_leaderboard_def Let_def leaderboard_message_of_def)
qed

lemma py_slice_take: "0 \<le> l \<Longrightarrow> py_slice xs 0 l = take (nat l) xs"
  using py_slice_take_drop [of 0 l xs] by simp

lemma kept_entries_positive:
  "x \<in> set (kept_entries cnt i us) \<Longrightarrow> 0 < total_count_of x"
  by (induction us arbitrary: i) (auto simp: total_count_of_def split: if_splits)

lemma kept_entries_cong:
  "(\<And>j u. cnt j u = cnt' j u) \<Longrightarrow> kept_entries cnt i us = kept_entries cnt' i us"
  by (induction us arbitrary: i) auto

lemma beer_stats_period:
  assumes "valid_drink_filter ty" and "truthy period" and "stats_cutoff now period = Some cutoff"
    and "find_one_user_id db uid = Some ud" and "beers ud = Some bs" and "bs \<noteq> []"
  shows "beer_stats tz db uid now period ty = Inr (Has_drunk (window_count tz cutoff ty bs))"
  using assms(2-6)
  by (simp add: beer_stats_def Let_def typed_beers_filterByType [OF assms(1)]
      count_since_Some window_count_def)

lemma beer_leaderboard_period:
  assumes "valid_drink_filter ty" and "valid_period period" and "period \<noteq> PyNone"
    and "\<And>i. leaderboard_cutoff (clock i) period = Some (cutoff i)"
    and "all_users \<noteq> []" and "1 \<le> limit"
    and "\<forall>u \<in> set all_users. nonempty_log u \<longrightarrow> has_both_counters u"
  shows "beer_leaderboard tz all_users clock period (Some limit) ty
           = Inr (leaderboard_message_of period (ranking_in_window tz cutoff ty limit all_users))"
proof -
  have "ranked_count tz clock period ty j u = count_in_window tz cutoff ty j u" for j u
    using assms(3,4) by (simp add: ranked_count_def count_in_window_def)
  then have "kept_entries (ranked_count tz clock period ty) 0 all_users
      = kept_entries (count_in_window tz cutoff ty) 0 all_users"
    by (rule kept_entries_cong)
  with assms(6) show ?thesis
    by (simp add: beer_leaderboard_complete [OF assms(1,2,5,7)] py_slice_take
        ranking_in_window_def)
qed

section \<open>Deleting: validation and ownership\<close>

text \<open>
  C8. An argument that \<^verbatim>\<open>uuid.UUID\<close> rejects is answered with the message for an invalid
  format, which is another message than the one for a beer that was not found; the
  command has made no call on the collection by then, and the collection is as before.
\<close>

theorem beer_delete_malformed_uuid:
  "\<not> uuid_ok beer_uuid \<Longrightarrow>
     beer_delete uuid_ok db caller beer_uuid = (db, [], Inr Invalid_uuid_format)
     \<and> Invalid_uuid_format \<noteq> No_beer_found"
  by (simp add: beer_delete_def)

theorem beer_delete_malformed_uuid_witness:
  "beer_delete (\<lambda>s. length s = 36)
     [\<lparr>user_id = 1, username = ''ann'',
       beers = Some [\<lparr>beer_id = ''pivo'', timestamp = 5, btype = Some (PyStr ''beer'')\<rparr>],
       total_beers = Some 1, total_ciders = Some 0\<rparr>]
     1 ''pivo''
   = ([\<lparr>user_id = 1, username = ''ann'',
        beers = Some [\<lparr>beer_id = ''pivo'', timestamp = 5, btype = Some (PyStr ''beer'')\<rparr>],
        total_beers = Some 1, total_ciders = Some 0\<rparr>],
      [], Inr Invalid_uuid_format)"
proof -
  have malformed: "\<not> (\<lambda>s. length s = 36) ''pivo''"
    by simp
  from beer_delete_malformed_uuid [of "\<lambda>s. length s = 36" "''pivo''", OF malformed]
  show ?thesis
    by blast
qed

text \<open>
  C6. When the document that holds the event belongs to another user than the caller, the
  command answers that one can delete one's own beers only; it has read the collection
  once and written nothing, so every document is as before.
\<close>

theorem beer_delete_forbidden:
  "uuid_ok beer_uuid \<Longrightarrow> find_one_beers_id db beer_uuid = Some owner \<Longrightarrow>
   user_id owner \<noteq> caller \<Longrightarrow>
     beer_delete uuid_ok db caller beer_uuid = (db, [Find_one], Inr Only_your_own_beers)"
  by (simp add: beer_delete_def)

theorem beer_delete_forbidden_witness:
  "beer_delete (\<lambda>s. length s = 4)
     [\<lparr>user_id = 1, username = ''ann'',
       beers = Some [\<lparr>beer_id = ''pivo'', timestamp = 5, btype = Some (PyStr ''beer'')\<rparr>],
       total_beers = Some 1, total_ciders = Some 0\<rparr>,
      \<lparr>user_id = 2, username = ''bob'', beers = Some [],
       total_beers = Some 0, total_ciders = Some 0\<rparr>]
     2 ''pivo''
   = ([\<lparr>user_id = 1, username = ''ann'',
        beers = Some [\<lparr>beer_id = ''pivo'', timestamp = 5, btype = Some (PyStr ''beer'')\<rparr>],
        total_beers = Some 1, total_ciders = Some 0\<rparr>,
       \<lparr>user_id = 2, username = ''bob'', beers = Some [],
        total_beers = Some 0, total_ciders = Some 0\<rparr>],
      [Find_one], Inr Only_your_own_beers)"
proof -
  let ?ann = "\<lparr>user_id = 1, username = ''ann'',
       beers = Some [\<lparr>beer_id = ''pivo'', timestamp = 5, btype = Some (PyStr ''beer'')\<rparr>],
       total_beers = Some 1, total_ciders = Some 0\<rparr>"
  let ?bob = "\<lparr>user_id = 2, username = ''bob'', beers = Some [],
       total_beers = Some 0, total_ciders = Some 0\<rparr>"
  have wellformed: "(\<lambda>s. length s = 4) ''pivo''"
    by simp
  have found: "find_one_beers_id [?ann, ?bob] ''pivo'' = Some ?ann"
    by (simp add: find_one_beers_id_def has_beer_id_def)
  have other: "user_id ?ann \<noteq> 2"
    by simp
  from beer_delete_forbidden [of "\<lambda>s. length s = 4" "''pivo''", OF wellformed found other]
  show ?thesis .
qed

section \<open>Listing: pages and order\<close>

text \<open>
  C4, as stated, fails: a user with one beer who lists the ciders gets an empty sequence,
  for which the command computes 0 pages and rejects page 1, naming 0 pages; it does not
  answer with one page of zero entries.
\<close>

theorem my_beers_emptied_by_filter_rejected:
  "my_beers
     [\<lparr>user_id = 1, username = ''ann'',
       beers = Some [\<lparr>beer_id = ''pivo'', timestamp = 5, btype = Some (PyStr ''beer'')\<rparr>],
       total_beers = Some 1, total_ciders = Some 0\<rparr>]
     1 10 1 (PyStr ''cider'')
   = Inr (Page_doesnt_exist 1 0)"
  by (simp add: my_beers_def find_one_user_id_def type_is_cider_def get_default_def
      py_sorted_reverse_def)

text \<open>
  C4, amended. For a user with a non-empty log, a type filter, a page size of at least 1
  and a page of at least 1, the number of pages is the ceiling of the number of filtered
  events over the page size, with no minimum: a page beyond it is rejected with that
  number, another page holds its slice of the sorted events. When the filter leaves no
  event the number of pages is 0 and every page is rejected; otherwise it is at least 1.
\<close>

theorem my_beers_total_pages:
  assumes "find_one_user_id db uid = Some ud" and "beers ud = Some bs" and "bs \<noteq> []"
    and "valid_drink_filter ty" and "1 \<le> limit" and "1 \<le> page"
  shows "my_beers db uid limit page ty =
           (let count = length (filterByType ty bs);
                total_pages = \<lceil>real count / real_of_int limit\<rceil>
            in if total_pages < page then Inr (Page_doesnt_exist page total_pages)
               else Inr (Your_beer_logs
                      (take (nat limit) (drop (nat ((page - 1) * limit))
                         (py_sorted_reverse timestamp (filterByType ty bs))))
                      page total_pages (int count)))
         \<and> (filterByType ty bs = [] \<longrightarrow>
              my_beers db uid limit page ty = Inr (Page_doesnt_exist page 0))
         \<and> (filterByType ty bs \<noteq> [] \<longrightarrow>
              1 \<le> \<lceil>real (length (filterByType ty bs)) / real_of_int limit\<rceil>)"
proof -
  let ?n = "int (length (filterByType ty bs))"
  have pos: "0 < limit"
    using assms(5) by simp
  have ceil: "(?n + limit - 1) div limit = \<lceil>real (length (filterByType ty bs)) / real_of_int limit\<rceil>"
    using total_pages_ceiling [OF pos, of ?n] by simp
  have zero: "(?n + limit - 1) div limit = 0 \<longleftrightarrow> filterByType ty bs = []"
    using total_pages_zero_iff [OF pos, of ?n] by simp
  have nonneg: "0 \<le> (?n + limit - 1) div limit"
    using pos by (simp add: pos_imp_zdiv_nonneg_iff)
  note char = my_beers_paginates [OF assms]
  have first: "my_beers db uid limit page ty =
           (let count = length (filterByType ty bs);
                total_pages = \<lceil>real count / real_of_int limit\<rceil>
            in if total_pages < page then Inr (Page_doesnt_exist page total_pages)
               else Inr (Your_beer_logs
                      (take (nat limit) (drop (nat ((page - 1) * limit))
                         (py_sorted_reverse timestamp (filterByType ty bs))))
                      page total_pages (int count)))"
    unfolding char Let_def ceil ..
  have second: "my_beers db uid limit page ty = Inr (Page_doesnt_exist page 0)"
    if "filterByType ty bs = []"
    using that assms(5,6) unfolding char by simp
  have third: "1 \<le> \<lceil>real (length (filterByType ty bs)) / real_of_int limit\<rceil>"
    if "filterByType ty bs \<noteq> []"
    using that zero nonneg unfolding ceil by linarith
  from first second third show ?thesis
    by blast
qed

theorem my_beers_total_pages_witness:
  "my_beers
     [\<lparr>user_id = 1, username = ''ann'',
       beers = Some [\<lparr>beer_id = ''e1'', timestamp = 10, btype = Some (PyStr ''beer'')\<rparr>,
                     \<lparr>beer_id = ''e2'', timestamp = 30, btype = Some (PyStr ''cider'')\<rparr>,
                     \<lparr>beer_id = ''e3'', timestamp = 20, btype = None\<rparr>],
       total_beers = Some 2, total_ciders = Some 1\<rparr>]
     1 1 2 (PyStr ''beer'')
   = Inr (Your_beer_logs [\<lparr>beer_id = ''e1'', timestamp = 10, btype = Some (PyStr ''beer'')\<rparr>]
            2 2 2)"
proof -
  let ?bs = "[\<lparr>beer_id = ''e1'', timestamp = 10, btype = Some (PyStr ''beer'')\<rparr>,
              \<lparr>beer_id = ''e2'', timestamp = 30, btype = Some (PyStr ''cider'')\<rparr>,
              \<lparr>beer_id = ''e3'', timestamp = 20, btype = None\<rparr>]"
  let ?ann = "\<lparr>user_id = 1, username = ''ann'', beers = Some ?bs,
               total_beers = Some 2, total_ciders = Some 1\<rparr>"
  have found: "find_one_user_id [?ann] 1 = Some ?ann"
    by (simp add: find_one_user_id_def)
  have log: "beers ?ann = Some ?bs"
    by simp
  have nonempty: "?bs \<noteq> []"
    by simp
  have ty: "valid_drink_filter (PyStr ''beer'')"
    by (simp add: valid_drink_filter_def)
  have limit: "1 \<le> (1::int)" and page: "1 \<le> (2::int)"
    by simp_all
  have filtered: "filterByType (PyStr ''beer'') ?bs =
      [\<lparr>beer_id = ''e1'', timestamp = 10, btype = Some (PyStr ''beer'')\<rparr>,
       \<lparr>beer_id = ''e3'', timestamp = 20, btype = None\<rparr>]"
    by (simp add: filterByType_def get_default_def)
  from my_beers_total_pages [OF found log nonempty ty limit page]
  show ?thesis
    unfolding filtered by (simp add: py_sorted_reverse_def)
qed

text \<open>
  C9, as stated, fails: two events with the same timestamp are listed in the order of
  their insertion, the one inserted first coming first.
\<close>

theorem my_beers_ties_keep_insertion_order:
  "my_beers
     [\<lparr>user_id = 1, username = ''ann'',
       beers = Some [\<lparr>beer_id = ''first'', timestamp = 5, btype = Some (PyStr ''beer'')\<rparr>,
                     \<lparr>beer_id = ''second'', timestamp = 5, btype = Some (PyStr ''beer'')\<rparr>],
       total_beers = Some 2, total_ciders = Some 0\<rparr>]
     1 10 1 (PyStr ''all'')
   = Inr (Your_beer_logs
       [\<lparr>beer_id = ''first'', timestamp = 5, btype = Some (PyStr ''beer'')\<rparr>,
        \<lparr>beer_id = ''second'', timestamp = 5, btype = Some (PyStr ''beer'')\<rparr>] 1 1 2)"
  by (simp add: my_beers_def find_one_user_id_def py_sorted_reverse_def py_slice_def)

text \<open>
  C9, amended. The page is a slice of the filtered events ordered newest first by
  timestamp, by a stable sort: events with equal timestamps keep their insertion order,
  the one inserted earlier before the one inserted later.
\<close>

theorem my_beers_newest_first_stable:
  assumes "find_one_user_id db uid = Some ud" and "beers ud = Some bs" and "bs \<noteq> []"
    and "valid_drink_filter ty" and "1 \<le> limit" and "1 \<le> page"
    and "page \<le> (int (length (filterByType ty bs)) + limit - 1) div limit"
  shows "\<exists>ordered.
           my_beers db uid limit page ty =
             Inr (Your_beer_logs (take (nat limit) (drop (nat ((page - 1) * limit)) ordered))
                    page ((int (length (filterByType ty bs)) + limit - 1) div limit)
                    (int (length (filterByType ty bs))))
         \<and> sorted_wrt (\<lambda>a b. timestamp b \<le> timestamp a) ordered
         \<and> length ordered = length (filterByType ty bs)
         \<and> (\<forall>t. filter (\<lambda>e. timestamp e = t) ordered
                  = filter (\<lambda>e. timestamp e = t) (filterByType ty bs))"
proof (intro exI conjI allI)
  show "my_beers db uid limit page ty =
             Inr (Your_beer_logs (take (nat limit) (drop (nat ((page - 1) * limit))
                     (py_sorted_reverse timestamp (filterByType ty bs))))
                    page ((int (length (filterByType ty bs)) + limit - 1) div limit)
                    (int (length (filterByType ty bs))))"
    using assms(7) unfolding my_beers_paginates [OF assms(1-6)] by simp
  show "sorted_wrt (\<lambda>a b. timestamp b \<le> timestamp a)
          (py_sorted_reverse timestamp (filterByType ty bs))"
    by (rule py_sorted_reverse_descending)
  show "length (py_sorted_reverse timestamp (filterByType ty bs)) = length (filterByType ty bs)"
    by (rule length_py_sorted_reverse)
  show "filter (\<lambda>e. timestamp e = t) (py_sorted_reverse timestamp (filterByType ty bs))
          = filter (\<lambda>e. timestamp e = t) (filterByType ty bs)" for t
    by (rule py_sorted_reverse_stable)
qed

theorem my_beers_newest_first_stable_witness:
  "\<exists>ordered.
     my_beers
       [\<lparr>user_id = 1, username = ''ann'',
         beers = Some [\<lparr>beer_id = ''e1'', timestamp = 10, btype = Some (PyStr ''beer'')\<rparr>,
                       \<lparr>beer_id = ''e2'', timestamp = 30, btype = Some (PyStr ''cider'')\<rparr>,
                       \<lparr>beer_id = ''e3'', timestamp = 10, btype = None\<rparr>],
         total_beers = Some 2, total_ciders = Some 1\<rparr>]
       1 2 2 (PyStr ''all'')
     = Inr (Your_beer_logs (take 2 (drop 2 ordered)) 2 2 3)
     \<and> sorted_wrt (\<lambda>a b. timestamp b \<le> timestamp a) ordered
     \<and> length ordered = 3
     \<and> (\<forall>t. filter (\<lambda>e. timestamp e = t) ordered
            = filter (\<lambda>e. timestamp e = t)
                [\<lparr>beer_id = ''e1'', timestamp = 10, btype = Some (PyStr ''beer'')\<rparr>,
                 \<lparr>beer_id = ''e2'', timestamp = 30, btype = Some (PyStr ''cider'')\<rparr>,
                 \<lparr>beer_id = ''e3'', timestamp = 10, btype = None\<rparr>])"
proof -
  let ?bs = "[\<lparr>beer_id = ''e1'', timestamp = 10, btype = Some (PyStr ''beer'')\<rparr>,
              \<lparr>beer_id = ''e2'', timestamp = 30, btype = Some (PyStr ''cider'')\<rparr>,
              \<lparr>beer_id = ''e3'', timestamp = 10, btype = None\<rparr>]"
  let ?ann = "\<lparr>user_id = 1, username = ''ann'', beers = Some ?bs,
               total_beers = Some 2, total_ciders = Some 1\<rparr>"
  have found: "find_one_user_id [?ann] 1 = Some ?ann"
    by (simp add: find_one_user_id_def)
  have log: "beers ?ann = Some ?bs"
    by simp
  have nonempty: "?bs \<noteq> []"
    by simp
  have ty: "valid_drink_filter (PyStr ''all'')"
    by (simp add: valid_drink_filter_def)
  have limit: "1 \<le> (2::int)" and page: "1 \<le> (2::int)"
    by simp_all
  have exists: "2 \<le> (int (length (filterByType (PyStr ''all'') ?bs)) + 2 - 1) div 2"
    by (simp add: filterByType_all)
  from my_beers_newest_first_stable [OF found log nonempty ty limit page exists]
  obtain ordered where
    result: "my_beers [?ann] 1 2 2 (PyStr ''all'') =
       Inr (Your_beer_logs (take (nat 2) (drop (nat ((2 - 1) * 2)) ordered)) 2
         ((int (length (filterByType (PyStr ''all'') ?bs)) + 2 - 1) div 2)
         (int (length (filterByType (PyStr ''all'') ?bs))))"
    and descending: "sorted_wrt (\<lambda>a b. timestamp b \<le> timestamp a) ordered"
    and len: "length ordered = length (filterByType (PyStr ''all'') ?bs)"
    and stable: "\<forall>t. filter (\<lambda>e. timestamp e = t) ordered
                   = filter (\<lambda>e. timestamp e = t) (filterByType (PyStr ''all'') ?bs)"
    by blast
  have "my_beers [?ann] 1 2 2 (PyStr ''all'') =
       Inr (Your_beer_logs (take 2 (drop 2 ordered)) 2 2 3)"
    using result by (simp add: filterByType_all)
  moreover have "length ordered = 3"
    using len by (simp add: filterByType_all)
  moreover have "\<forall>t. filter (\<lambda>e. timestamp e = t) ordered
                   = filter (\<lambda>e. timestamp e = t) ?bs"
    using stable unfolding filterByType_all .
  ultimately show ?thesis
    using descending by blast
qed

section \<open>The last beer\<close>

text \<open>
  C2, as stated, fails: for the events of 10:00, 11:00 and 09:00, stored in this order,
  the command takes the trailing one, of 09:00, and not the one of 11:00.
\<close>

theorem beer_last_returns_trailing_event:
  "beer_last
     [\<lparr>user_id = 1, username = ''ann'',
       beers = Some [\<lparr>beer_id = ''e1'', timestamp = 36000000000, btype = Some (PyStr ''beer'')\<rparr>,
                     \<lparr>beer_id = ''e2'', timestamp = 39600000000, btype = Some (PyStr ''beer'')\<rparr>,
                     \<lparr>beer_id = ''e3'', timestamp = 32400000000, btype = Some (PyStr ''beer'')\<rparr>],
       total_beers = Some 3, total_ciders = Some 0\<rparr>]
     1 (PyStr ''all'')
   = Inr (Last_beer_was
       \<lparr>beer_id = ''e3'', timestamp = 32400000000, btype = Some (PyStr ''beer'')\<rparr>)"
  by (simp add: beer_last_def find_one_user_id_def py_last_def)

text \<open>
  The command does not answer with the message for a user without beers when the type
  filter leaves no event: the index \<^verbatim>\<open>[-1]\<close> on the empty list raises.
\<close>

lemma beer_last_filter_emptied:
  "beer_last
     [\<lparr>user_id = 1, username = ''ann'',
       beers = Some [\<lparr>beer_id = ''e1'', timestamp = 36000000000, btype = Some (PyStr ''beer'')\<rparr>],
       total_beers = Some 1, total_ciders = Some 0\<rparr>]
     1 (PyStr ''cider'')
   = Inl IndexError"
  by (simp add: beer_last_def find_one_user_id_def py_last_def type_is_cider_def get_default_def)

text \<open>
  C2, amended. The command answers that the user has not drunk any beer when the user has
  no record or the record has no event. When the type-filtered list of events is not
  empty, it takes the trailing event of that list, the one inserted last; this is an event
  with the greatest timestamp when the list is stored in the order of its timestamps.
\<close>

theorem beer_last_trailing:
  "(find_one_user_id db uid = None \<longrightarrow> beer_last db uid ty = Inr Hasnt_drunk_any_yet)
   \<and> (find_one_user_id db uid = Some ud \<and> beers ud = Some [] \<longrightarrow>
        beer_last db uid ty = Inr Hasnt_drunk_any_yet)
   \<and> (find_one_user_id db uid = Some ud \<and> beers ud = Some bs \<and> valid_drink_filter ty
        \<and> filterByType ty bs \<noteq> [] \<longrightarrow>
        beer_last db uid ty = Inr (Last_beer_was (last (filterByType ty bs)))
        \<and> (sorted (map timestamp (filterByType ty bs)) \<longrightarrow>
             (\<forall>e \<in> set (filterByType ty bs).
                timestamp e \<le> timestamp (last (filterByType ty bs)))))"
proof (intro conjI impI)
  assume "find_one_user_id db uid = None"
  then show "beer_last db uid ty = Inr Hasnt_drunk_any_yet"
    by (simp add: beer_last_def)
next
  assume "find_one_user_id db uid = Some ud \<and> beers ud = Some []"
  then show "beer_last db uid ty = Inr Hasnt_drunk_any_yet"
    by (simp add: beer_last_def)
next
  assume "find_one_user_id db uid = Some ud \<and> beers ud = Some bs \<and> valid_drink_filter ty
        \<and> filterByType ty bs \<noteq> []"
  then show "beer_last db uid ty = Inr (Last_beer_was (last (filterByType ty bs)))"
    by (simp add: beer_last_nonempty)
next
  assume "sorted (map timestamp (filterByType ty bs))"
  then show "\<forall>e \<in> set (filterByType ty bs).
                timestamp e \<le> timestamp (last (filterByType ty bs))"
    by (blast intro: sorted_last_greatest)
qed

theorem beer_last_trailing_witness:
  "beer_last
     [\<lparr>user_id = 1, username = ''ann'',
       beers = Some [\<lparr>beer_id = ''e1'', timestamp = 32400000000, btype = None\<rparr>,
                     \<lparr>beer_id = ''e2'', timestamp = 36000000000, btype = Some (PyStr ''cider'')\<rparr>,
                     \<lparr>beer_id = ''e3'', timestamp = 39600000000, btype = Some (PyStr ''beer'')\<rparr>],
       total_beers = Some 2, total_ciders = Some 1\<rparr>]
     1 (PyStr ''cider'')
   = Inr (Last_beer_was
       \<lparr>beer_id = ''e2'', timestamp = 36000000000, btype = Some (PyStr ''cider'')\<rparr>)
   \<and> beer_last [] 1 (PyStr ''cider'') = Inr Hasnt_drunk_any_yet"
proof -
  let ?bs = "[\<lparr>beer_id = ''e1'', timestamp = 32400000000, btype = None\<rparr>,
              \<lparr>beer_id = ''e2'', timestamp = 36000000000, btype = Some (PyStr ''cider'')\<rparr>,
              \<lparr>beer_id = ''e3'', timestamp = 39600000000, btype = Some (PyStr ''beer'')\<rparr>]"
  let ?ann = "\<lparr>user_id = 1, username = ''ann'', beers = Some ?bs,
               total_beers = Some 2, total_ciders = Some 1\<rparr>"
  have filtered: "filterByType (PyStr ''cider'') ?bs =
      [\<lparr>beer_id = ''e2'', timestamp = 36000000000, btype = Some (PyStr ''cider'')\<rparr>]"
    by (simp add: filterByType_def get_default_def)
  have hyps: "find_one_user_id [?ann] 1 = Some ?ann \<and> beers ?ann = Some ?bs
      \<and> valid_drink_filter (PyStr ''cider'') \<and> filterByType (PyStr ''cider'') ?bs \<noteq> []"
    unfolding filtered by (simp add: find_one_user_id_def valid_drink_filter_def)
  have absent: "find_one_user_id [] 1 = None"
    by (simp add: find_one_user_id_def)
  from beer_last_trailing [of "[?ann]" 1 "PyStr ''cider''" ?ann ?bs] hyps
  have "beer_last [?ann] 1 (PyStr ''cider'') =
      Inr (Last_beer_was (last (filterByType (PyStr ''cider'') ?bs)))"
    by blast
  moreover from beer_last_trailing [of "[]" 1 "PyStr ''cider''"] absent
  have "beer_last [] 1 (PyStr ''cider'') = Inr Hasnt_drunk_any_yet"
    by blast
  ultimately show ?thesis
    unfolding filtered by simp
qed

section \<open>Totals\<close>

text \<open>
  C1. Start from a collection in which every record satisfies the invariant (the empty
  collection does) and run any sequence of \<^verbatim>\<open>log_beer\<close> and \<^verbatim>\<open>beer_delete\<close> commands in
  which every logged type is beer or cider. After each command, that is after every
  prefix of the sequence, every record has both counters, \<^verbatim>\<open>total_beers\<close> is the number of
  its events that are beers (an event without a type counting as a beer),
  \<^verbatim>\<open>total_ciders\<close> is the number of its events that are ciders, and the two add up to the
  number of its events.
\<close>

theorem totals_match_events_after_each_command:
  assumes "list_all counters_match db" and "list_all logs_beer_or_cider cmds"
    and "n \<le> length cmds" and "u \<in> set (run_commands uuid_ok db (take n cmds))"
  shows "\<exists>events tb tc.
           beers u = Some events \<and> total_beers u = Some tb \<and> total_ciders u = Some tc
           \<and> tb = int (length (filter type_is_beer events))
           \<and> tc = int (length (filter type_is_cider events))
           \<and> tb + tc = int (length events)"
proof -
  have "list_all logs_beer_or_cider (take n cmds)"
    using assms(2) by (auto simp: list_all_iff dest: in_set_takeD)
  with assms(1) have "list_all counters_match (run_commands uuid_ok db (take n cmds))"
    by (rule run_commands_counters_match)
  with assms(4) have "counters_match u"
    by (simp add: list_all_iff)
  then show ?thesis
    by (rule counters_match_sum)
qed

theorem totals_match_events_after_each_command_witness:
  "run_commands (\<lambda>s. length s = 2) []
     [Log_beer 1 ''ann'' (PyStr ''beer'') ''a1'' 100,
      Log_beer 1 ''ann'' (PyStr ''cider'') ''a2'' 200,
      Log_beer 2 ''bob'' (PyStr ''beer'') ''b1'' 300,
      Beer_delete 1 ''a1'']
   = [\<lparr>user_id = 1, username = ''ann'',
        beers = Some [\<lparr>beer_id = ''a2'', timestamp = 200, btype = Some (PyStr ''cider'')\<rparr>],
        total_beers = Some 0, total_ciders = Some 1\<rparr>,
       \<lparr>user_id = 2, username = ''bob'',
        beers = Some [\<lparr>beer_id = ''b1'', timestamp = 300, btype = Some (PyStr ''beer'')\<rparr>],
        total_beers = Some 1, total_ciders = Some 0\<rparr>]
   \<and> (\<exists>events tb tc.
         beers \<lparr>user_id = 1, username = ''ann'',
                beers = Some [\<lparr>beer_id = ''a2'', timestamp = 200,
                               btype = Some (PyStr ''cider'')\<rparr>],
                total_beers = Some 0, total_ciders = Some 1\<rparr> = Some events
         \<and> total_beers \<lparr>user_id = 1, username = ''ann'',
                beers = Some [\<lparr>beer_id = ''a2'', timestamp = 200,
                               btype = Some (PyStr ''cider'')\<rparr>],
                total_beers = Some 0, total_ciders = Some 1\<rparr> = Some tb
         \<and> total_ciders \<lparr>user_id = 1, username = ''ann'',
                beers = Some [\<lparr>beer_id = ''a2'', timestamp = 200,
                               btype = Some (PyStr ''cider'')\<rparr>],
                total_beers = Some 0, total_ciders = Some 1\<rparr> = Some tc
         \<and> tb = int (length (filter type_is_beer events))
         \<and> tc = int (length (filter type_is_cider events))
         \<and> tb + tc = int (length events))"
proof -
  let ?cmds = "[Log_beer 1 ''ann'' (PyStr ''beer'') ''a1'' 100,
      Log_beer 1 ''ann'' (PyStr ''cider'') ''a2'' 200,
      Log_beer 2 ''bob'' (PyStr ''beer'') ''b1'' 300,
      Beer_delete 1 ''a1'']"
  let ?ann = "\<lparr>user_id = 1, username = ''ann'',
        beers = Some [\<lparr>beer_id = ''a2'', timestamp = 200, btype = Some (PyStr ''cider'')\<rparr>],
        total_beers = Some 0, total_ciders = Some 1\<rparr>"
  let ?bob = "\<lparr>user_id = 2, username = ''bob'',
        beers = Some [\<lparr>beer_id = ''b1'', timestamp = 300, btype = Some (PyStr ''beer'')\<rparr>],
        total_beers = Some 1, total_ciders = Some 0\<rparr>"
  have run: "run_commands (\<lambda>s. length s = 2) [] ?cmds = [?ann, ?bob]"
    by (simp add: run_commands_def log_beer_def beer_delete_def find_one_user_id_def
        find_one_beers_id_def has_beer_id_def get_default_def type_is_beer_def
        type_is_cider_def)
  have start: "list_all counters_match []"
    by simp
  have types: "list_all logs_beer_or_cider ?cmds"
    by simp
  have prefix: "4 \<le> length ?cmds"
    by simp
  have member: "?ann \<in> set (run_commands (\<lambda>s. length s = 2) [] (take 4 ?cmds))"
    using run by simp
  from totals_match_events_after_each_command [OF start types prefix member] run
  show ?thesis
    by blast
qed

section \<open>Deleting twice\<close>

text \<open>
  C7. In a store that satisfies the invariants of the data model (the user id is the key
  of a record, an event id is unique in the whole store), when a \<^verbatim>\<open>beer_delete\<close> has removed
  the event, the same command again answers that no beer has that id, after one read and
  no write: every record is as the first command left it.
\<close>

theorem beer_delete_twice:
  assumes "store_keys_unique db"
    and "beer_delete uuid_ok db caller beer_uuid = (db', calls, Inr (Successfully_deleted b))"
  shows "beer_delete uuid_ok db' caller beer_uuid = (db', [Find_one], Inr No_beer_found)"
proof -
  let ?bs' = "\<lambda>bs. filter (\<lambda>b. beer_id b \<noteq> beer_uuid) bs"
  from assms(2) obtain u bs where ok: "uuid_ok beer_uuid"
    and found: "find_one_beers_id db beer_uuid = Some u"
    and bs: "beers u = Some bs"
    and db': "db' = update_one_set db (user_id u) (?bs' bs)
                (int (length (filter type_is_beer (?bs' bs))))
                (int (length (filter type_is_cider (?bs' bs))))"
    by (rule beer_delete_success)
  from found have u: "u \<in> set db" "has_beer_id beer_uuid u"
    by (simp_all add: find_one_beers_id_in_set)
  from assms(1) have keys: "distinct (map user_id db)" and ids: "distinct (all_beer_ids db)"
    by (simp_all add: store_keys_unique_def)
  have "\<not> has_beer_id beer_uuid v" if "v \<in> set db'" for v
  proof -
    from that have "v = u\<lparr>beers := Some (?bs' bs),
          total_beers := Some (int (length (filter type_is_beer (?bs' bs)))),
          total_ciders := Some (int (length (filter type_is_cider (?bs' bs))))\<rparr>
        \<or> v \<in> set db \<and> v \<noteq> u"
      unfolding db' set_update_one_set_distinct [OF keys u(1)] by auto
    then show ?thesis
    proof
      assume "v = u\<lparr>beers := Some (?bs' bs),
          total_beers := Some (int (length (filter type_is_beer (?bs' bs)))),
          total_ciders := Some (int (length (filter type_is_cider (?bs' bs))))\<rparr>"
      then show ?thesis
        by (simp add: has_beer_id_def list_ex_iff)
    next
      assume "v \<in> set db \<and> v \<noteq> u"
      with unique_owner [OF ids u(1) _ u(2)] show ?thesis
        by blast
    qed
  qed
  then have "find_one_beers_id db' beer_uuid = None"
    by (simp add: find_None_iff_no_owner)
  with ok show ?thesis
    by (simp add: beer_delete_def)
qed

theorem beer_delete_twice_witness:
  "beer_delete (\<lambda>s. length s = 2)
     [\<lparr>user_id = 1, username = ''ann'',
       beers = Some [\<lparr>beer_id = ''a2'', timestamp = 200, btype = Some (PyStr ''cider'')\<rparr>],
       total_beers = Some 0, total_ciders = Some 1\<rparr>,
      \<lparr>user_id = 2, username = ''bob'',
       beers = Some [\<lparr>beer_id = ''b1'', timestamp = 300, btype = Some (PyStr ''beer'')\<rparr>],
       total_beers = Some 1, total_ciders = Some 0\<rparr>]
     1 ''a1''
   = ([\<lparr>user_id = 1, username = ''ann'',
        beers = Some [\<lparr>beer_id = ''a2'', timestamp = 200, btype = Some (PyStr ''cider'')\<rparr>],
        total_beers = Some 0, total_ciders = Some 1\<rparr>,
       \<lparr>user_id = 2, username = ''bob'',
        beers = Some [\<lparr>beer_id = ''b1'', timestamp = 300, btype = Some (PyStr ''beer'')\<rparr>],
        total_beers = Some 1, total_ciders = Some 0\<rparr>],
      [Find_one], Inr No_beer_found)"
proof -
  let ?a1 = "\<lparr>beer_id = ''a1'', timestamp = 100, btype = Some (PyStr ''beer'')\<rparr>"
  let ?a2 = "\<lparr>beer_id = ''a2'', timestamp = 200, btype = Some (PyStr ''cider'')\<rparr>"
  let ?bob = "\<lparr>user_id = 2, username = ''bob'',
       beers = Some [\<lparr>beer_id = ''b1'', timestamp = 300, btype = Some (PyStr ''beer'')\<rparr>],
       total_beers = Some 1, total_ciders = Some 0\<rparr>"
  let ?before = "[\<lparr>user_id = 1, username = ''ann'', beers = Some [?a1, ?a2],
       total_beers = Some 1, total_ciders = Some 1\<rparr>, ?bob]"
  let ?after = "[\<lparr>user_id = 1, username = ''ann'', beers = Some [?a2],
       total_beers = Some 0, total_ciders = Some 1\<rparr>, ?bob]"
  have keys: "store_keys_unique ?before"
    by (simp add: store_keys_unique_def all_beer_ids_def get_default_def)
  have first: "beer_delete (\<lambda>s. length s = 2) ?before 1 ''a1''
      = (?after, [Find_one, Update_one], Inr (Successfully_deleted ?a1))"
    by (simp add: beer_delete_def find_one_beers_id_def has_beer_id_def get_default_def
        type_is_beer_def type_is_cider_def)
  from beer_delete_twice [OF keys first] show ?thesis .
qed

section \<open>Ranking\<close>

text \<open>
  C5. For a collection whose records with events carry both counters, a type filter, a
  period or none, and a limit of at least 1: the leaderboard of the empty collection is
  the message that no beer has been logged; otherwise it is made of the first \<open>limit\<close>
  entries of a list \<open>ranked\<close> that holds the kept entries (a record without events or with
  the ranked count 0 is dropped, so every count is positive), sorted descending by the
  ranked count, entries of equal count in scan order (the sort is stable). Without a
  period and for all types the ranked count is the sum of the two counters. The witness
  is a collection with the counts 3, 5, 5 and the limit 2: the leaderboard has the two
  entries of count 5, in scan order.
\<close>

theorem beer_leaderboard_ranks:
  assumes "valid_drink_filter ty" and "valid_period period" and "1 \<le> limit"
    and "\<forall>u \<in> set all_users. nonempty_log u \<longrightarrow> has_both_counters u"
  shows "\<exists>ranked.
           beer_leaderboard tz all_users clock period (Some limit) ty
             = Inr (if all_users = [] then No_beers_logged_yet
                    else leaderboard_message_of period (take (nat limit) ranked))
         \<and> sorted_wrt (\<lambda>a b. total_count_of b \<le> total_count_of a) ranked
         \<and> length ranked = length (kept_entries (ranked_count tz clock period ty) 0 all_users)
         \<and> (\<forall>c. filter (\<lambda>x. total_count_of x = c) ranked
                = filter (\<lambda>x. total_count_of x = c)
                    (kept_entries (ranked_count tz clock period ty) 0 all_users))
         \<and> (\<forall>x \<in> set ranked. 0 < total_count_of x)
         \<and> (period = PyNone \<and> ty = PyStr ''all'' \<longrightarrow>
              (\<forall>i u. ranked_count tz clock period ty i u
                 = get_default (total_beers u) 0 + get_default (total_ciders u) 0))"
proof (intro exI conjI allI ballI impI)
  let ?kept = "kept_entries (ranked_count tz clock period ty) 0 all_users"
  let ?ranked = "py_sorted_reverse total_count_of ?kept"
  show "beer_leaderboard tz all_users clock period (Some limit) ty
      = Inr (if all_users = [] then No_beers_logged_yet
             else leaderboard_message_of period (take (nat limit) ?ranked))"
  proof (cases "all_users = []")
    case True
    then show ?thesis
      by (simp add: beer_leaderboard_def)
  next
    case False
    with assms(3) show ?thesis
      by (simp add: beer_leaderboard_complete [OF assms(1,2) False assms(4)] py_slice_take)
  qed
  show "sorted_wrt (\<lambda>a b. total_count_of b \<le> total_count_of a) ?ranked"
    by (rule py_sorted_reverse_descending)
  show "length ?ranked = length ?kept"
    by (rule length_py_sorted_reverse)
  show "filter (\<lambda>x. total_count_of x = c) ?ranked = filter (\<lambda>x. total_count_of x = c) ?kept" for c
    by (rule py_sorted_reverse_stable)
  show "0 < total_count_of x" if "x \<in> set ?ranked" for x
    using that by (simp add: set_py_sorted_reverse kept_entries_positive)
  show "ranked_count tz clock period ty i u
      = get_default (total_beers u) 0 + get_default (total_ciders u) 0"
    if "period = PyNone \<and> ty = PyStr ''all''" for i u
    using that by (simp add: ranked_count_def stored_total_def)
qed

theorem beer_leaderboard_ranks_witness:
  "beer_leaderboard cet
     [\<lparr>user_id = 1, username = ''ann'',
       beers = Some [\<lparr>beer_id = ''a1'', timestamp = 100, btype = Some (PyStr ''beer'')\<rparr>,
                     \<lparr>beer_id = ''a2'', timestamp = 200, btype = Some (PyStr ''beer'')\<rparr>,
                     \<lparr>beer_id = ''a3'', timestamp = 300, btype = Some (PyStr ''beer'')\<rparr>],
       total_beers = Some 3, total_ciders = Some 0\<rparr>,
      \<lparr>user_id = 2, username = ''bob'',
       beers = Some [\<lparr>beer_id = ''b1'', timestamp = 110, btype = Some (PyStr ''beer'')\<rparr>,
                     \<lparr>beer_id = ''b2'', timestamp = 210, btype = Some (PyStr ''beer'')\<rparr>,
                     \<lparr>beer_id = ''b3'', timestamp = 310, btype = Some (PyStr ''beer'')\<rparr>,
                     \<lparr>beer_id = ''b4'', timestamp = 410, btype = Some (PyStr ''beer'')\<rparr>,
                     \<lparr>beer_id = ''b5'', timestamp = 510, btype = Some (PyStr ''beer'')\<rparr>],
       total_beers = Some 5, total_ciders = Some 0\<rparr>,
      \<lparr>user_id = 3, username = ''cyd'', beers = Some [],
       total_beers = Some 0, total_ciders = Some 0\<rparr>,
      \<lparr>user_id = 4, username = ''dan'',
       beers = Some [\<lparr>beer_id = ''d1'', timestamp = 120, btype = Some (PyStr ''beer'')\<rparr>,
                     \<lparr>beer_id = ''d2'', timestamp = 220, btype = Some (PyStr ''cider'')\<rparr>,
                     \<lparr>beer_id = ''d3'', timestamp = 320, btype = Some (PyStr ''beer'')\<rparr>,
                     \<lparr>beer_id = ''d4'', timestamp = 420, btype = Some (PyStr ''cider'')\<rparr>,
                     \<lparr>beer_id = ''d5'', timestamp = 520, btype = Some (PyStr ''beer'')\<rparr>],
       total_beers = Some 3, total_ciders = Some 2\<rparr>]
     (steady_clock 1000) PyNone (Some 2) (PyStr ''all'')
   = Inr (Top_beer_drinkers [(''bob'', 5, 2, 5, 0), (''dan'', 5, 4, 3, 2)])"
proof -
  let ?ann = "\<lparr>user_id = 1, username = ''ann'',
       beers = Some [\<lparr>beer_id = ''a1'', timestamp = 100, btype = Some (PyStr ''beer'')\<rparr>,
                     \<lparr>beer_id = ''a2'', timestamp = 200, btype = Some (PyStr ''beer'')\<rparr>,
                     \<lparr>beer_id = ''a3'', timestamp = 300, btype = Some (PyStr ''beer'')\<rparr>],
       total_beers = Some 3, total_ciders = Some 0\<rparr>"
  let ?bob = "\<lparr>user_id = 2, username = ''bob'',
       beers = Some [\<lparr>beer_id = ''b1'', timestamp = 110, btype = Some (PyStr ''beer'')\<rparr>,
                     \<lparr>beer_id = ''b2'', timestamp = 210, btype = Some (PyStr ''beer'')\<rparr>,
                     \<lparr>beer_id = ''b3'', timestamp = 310, btype = Some (PyStr ''beer'')\<rparr>,
                     \<lparr>beer_id = ''b4'', timestamp = 410, btype = Some (PyStr ''beer'')\<rparr>,
                     \<lparr>beer_id = ''b5'', timestamp = 510, btype = Some (PyStr ''beer'')\<rparr>],
       total_beers = Some 5, total_ciders = Some 0\<rparr>"
  let ?cyd = "\<lparr>user_id = 3, username = ''cyd'', beers = Some [],
       total_beers = Some 0, total_ciders = Some 0\<rparr>"
  let ?dan = "\<lparr>user_id = 4, username = ''dan'',
       beers = Some [\<lparr>beer_id = ''d1'', timestamp = 120, btype = Some (PyStr ''beer'')\<rparr>,
                     \<lparr>beer_id = ''d2'', timestamp = 220, btype = Some (PyStr ''cider'')\<rparr>,
                     \<lparr>beer_id = ''d3'', timestamp = 320, btype = Some (PyStr ''beer'')\<rparr>,
                     \<lparr>beer_id = ''d4'', timestamp = 420, btype = Some (PyStr ''cider'')\<rparr>,
                     \<lparr>beer_id = ''d5'', timestamp = 520, btype = Some (PyStr ''beer'')\<rparr>],
       total_beers = Some 3, total_ciders = Some 2\<rparr>"
  let ?db = "[?ann, ?bob, ?cyd, ?dan]"
  let ?tz = "cet"
  have ty: "valid_drink_filter (PyStr ''all'')"
    by (simp add: valid_drink_filter_def)
  have period: "valid_period PyNone"
    by (simp add: valid_period_def)
  have limit: "1 \<le> (2::int)"
    by simp
  have counters: "\<forall>u \<in> set ?db. nonempty_log u \<longrightarrow> has_both_counters u"
    by (simp add: has_both_counters_def)
  have kept: "kept_entries (ranked_count ?tz (steady_clock 1000) PyNone (PyStr ''all'')) 0 ?db
      = [(''ann'', 3, 1, 3, 0), (''bob'', 5, 2, 5, 0), (''dan'', 5, 4, 3, 2)]"
    by (simp add: ranked_count_def stored_total_def nonempty_log_def get_default_def)
  from beer_leaderboard_ranks [OF ty period limit counters, of ?tz "steady_clock 1000"]
  obtain ranked where
    result: "beer_leaderboard ?tz ?db (steady_clock 1000) PyNone (Some 2) (PyStr ''all'')
       = Inr (if ?db = [] then No_beers_logged_yet
              else leaderboard_message_of PyNone (take (nat 2) ranked))"
    and descending: "sorted_wrt (\<lambda>a b. total_count_of b \<le> total_count_of a) ranked"
    and len: "length ranked = length (kept_entries (ranked_count ?tz (steady_clock 1000) PyNone
        (PyStr ''all'')) 0 ?db)"
    and stable: "\<forall>c. filter (\<lambda>x. total_count_of x = c) ranked
        = filter (\<lambda>x. total_count_of x = c)
            (kept_entries (ranked_count ?tz (steady_clock 1000) PyNone (PyStr ''all'')) 0 ?db)"
    by blast
  from len have "length ranked = 3"
    unfolding kept by simp
  then obtain x y z where ranked: "ranked = [x, y, z]"
    by (auto simp: length_Suc_conv numeral_3_eq_3)
  from stable have five: "filter (\<lambda>x. total_count_of x = 5) ranked
      = [(''bob'', 5, 2, 5, 0), (''dan'', 5, 4, 3, 2)]"
    and three: "filter (\<lambda>x. total_count_of x = 3) ranked = [(''ann'', 3, 1, 3, 0)]"
    unfolding kept by (simp_all add: total_count_of_def)
  have "take 2 ranked = [(''bob'', 5, 2, 5, 0), (''dan'', 5, 4, 3, 2)]"
    using five three descending unfolding ranked
    by (auto simp: total_count_of_def split: if_splits)
  with result show ?thesis
    by (simp add: leaderboard_message_of_def)
qed

section \<open>Periods\<close>

text \<open>
  C3, as stated, fails for the leaderboard: at 12:00 an event of 20:00 the day before is
  within the last 24 hours, and \<^verbatim>\<open>beer_stats\<close> counts it for the period \<^verbatim>\<open>day\<close>, but the
  leaderboard takes the start of the current day as the cutoff of \<^verbatim>\<open>day\<close> and drops the
  user.
\<close>

theorem leaderboard_day_starts_at_midnight:
  "beer_leaderboard cet
     [\<lparr>user_id = 1, username = ''ann'',
       beers = Some [\<lparr>beer_id = ''e1'', timestamp = 63872478000000000,
                      btype = Some (PyStr ''beer'')\<rparr>],
       total_beers = Some 1, total_ciders = Some 0\<rparr>]
     (steady_clock 63872539200000000) (PyStr ''day'') (Some 10) (PyStr ''all'')
   = Inr (No_beers_logged_in_the_last (PyStr ''day''))
   \<and> 63872539200000000 - 86400000000 \<le> cet 63872478000000000
   \<and> beer_stats cet
     [\<lparr>user_id = 1, username = ''ann'',
       beers = Some [\<lparr>beer_id = ''e1'', timestamp = 63872478000000000,
                      btype = Some (PyStr ''beer'')\<rparr>],
       total_beers = Some 1, total_ciders = Some 0\<rparr>]
     1 63872539200000000 (PyStr ''day'') (PyStr ''all'')
   = Inr (Has_drunk 1)"
  by (simp add: beer_leaderboard_def leaderboard_total_count_def truthy_def count_since_def
      leaderboard_cutoff_def replace_midnight_def ts_to_prague_time_def py_sorted_reverse_def
      py_slice_def beer_stats_def find_one_user_id_def stats_cutoff_def timedelta_days_def
      cet_def steady_clock_def)

text \<open>
  C3, amended. For a user with events, \<^verbatim>\<open>beer_stats\<close> counts exactly the events of the type
  whose timestamp, on the wall clock of the display zone, is at or after the cutoff: now
  minus 24 hours for the day, minus 7 days for the week, minus 30 days for the month,
  minus 365 days for the year. The leaderboard ranks by the same count with the cutoffs
  of the week, the month and the year computed the same way from the reading of the clock
  of each round, and with the start of the current day (midnight on that wall clock) as
  the cutoff of the day.
\<close>

theorem period_cutoffs:
  assumes "valid_drink_filter ty"
  shows "(find_one_user_id db uid = Some ud \<and> beers ud = Some bs \<and> bs \<noteq> [] \<longrightarrow>
            beer_stats tz db uid now (PyStr ''day'') ty
              = Inr (Has_drunk (window_count tz (now - 86400000000) ty bs))
          \<and> beer_stats tz db uid now (PyStr ''week'') ty
              = Inr (Has_drunk (window_count tz (now - 7 * 86400000000) ty bs))
          \<and> beer_stats tz db uid now (PyStr ''month'') ty
              = Inr (Has_drunk (window_count tz (now - 30 * 86400000000) ty bs))
          \<and> beer_stats tz db uid now (PyStr ''year'') ty
              = Inr (Has_drunk (window_count tz (now - 365 * 86400000000) ty bs)))
       \<and> (all_users \<noteq> [] \<and> 1 \<le> limit
          \<and> (\<forall>u \<in> set all_users. nonempty_log u \<longrightarrow> has_both_counters u) \<longrightarrow>
            beer_leaderboard tz all_users clock (PyStr ''day'') (Some limit) ty
              = Inr (leaderboard_message_of (PyStr ''day'')
                  (ranking_in_window tz (\<lambda>i. clock i - clock i mod 86400000000) ty limit
                     all_users))
          \<and> beer_leaderboard tz all_users clock (PyStr ''week'') (Some limit) ty
              = Inr (leaderboard_message_of (PyStr ''week'')
                  (ranking_in_window tz (\<lambda>i. clock i - 7 * 86400000000) ty limit all_users))
          \<and> beer_leaderboard tz all_users clock (PyStr ''month'') (Some limit) ty
              = Inr (leaderboard_message_of (PyStr ''month'')
                  (ranking_in_window tz (\<lambda>i. clock i - 30 * 86400000000) ty limit all_users))
          \<and> beer_leaderboard tz all_users clock (PyStr ''year'') (Some limit) ty
              = Inr (leaderboard_message_of (PyStr ''year'')
                  (ranking_in_window tz (\<lambda>i. clock i - 365 * 86400000000) ty limit
                     all_users)))"
proof (intro conjI impI)
  assume "find_one_user_id db uid = Some ud \<and> beers ud = Some bs \<and> bs \<noteq> []"
  then have f: "find_one_user_id db uid = Some ud" and b: "beers ud = Some bs" and n: "bs \<noteq> []"
    by simp_all
  note stats = beer_stats_period [OF assms _ _ f b n]
  show "beer_stats tz db uid now (PyStr ''day'') ty
      = Inr (Has_drunk (window_count tz (now - 86400000000) ty bs))"
    by (rule stats) (simp_all add: truthy_def stats_cutoff_def timedelta_days_def)
  show "beer_stats tz db uid now (PyStr ''week'') ty
      = Inr (Has_drunk (window_count tz (now - 7 * 86400000000) ty bs))"
    by (rule stats) (simp_all add: truthy_def stats_cutoff_def timedelta_weeks_def timedelta_days_def)
  show "beer_stats tz db uid now (PyStr ''month'') ty
      = Inr (Has_drunk (window_count tz (now - 30 * 86400000000) ty bs))"
    by (rule stats) (simp_all add: truthy_def stats_cutoff_def timedelta_days_def)
  show "beer_stats tz db uid now (PyStr ''year'') ty
      = Inr (Has_drunk (window_count tz (now - 365 * 86400000000) ty bs))"
    by (rule stats) (simp_all add: truthy_def stats_cutoff_def timedelta_days_def)
next
  assume "all_users \<noteq> [] \<and> 1 \<le> limit
          \<and> (\<forall>u \<in> set all_users. nonempty_log u \<longrightarrow> has_both_counters u)"
  then have ne: "all_users \<noteq> []" and l: "1 \<le> limit"
    and c: "\<forall>u \<in> set all_users. nonempty_log u \<longrightarrow> has_both_counters u"
    by simp_all
  note board = beer_leaderboard_period [OF assms _ _ _ ne l c]
  show "beer_leaderboard tz all_users clock (PyStr ''day'') (Some limit) ty
      = Inr (leaderboard_message_of (PyStr ''day'')
          (ranking_in_window tz (\<lambda>i. clock i - clock i mod 86400000000) ty limit all_users))"
    by (rule board) (simp_all add: valid_period_def leaderboard_cutoff_def replace_midnight_def)
  show "beer_leaderboard tz all_users clock (PyStr ''week'') (Some limit) ty
      = Inr (leaderboard_message_of (PyStr ''week'')
          (ranking_in_window tz (\<lambda>i. clock i - 7 * 86400000000) ty limit all_users))"
    by (rule board) (simp_all add: valid_period_def leaderboard_cutoff_def timedelta_weeks_def
        timedelta_days_def)
  show "beer_leaderboard tz all_users clock (PyStr ''month'') (Some limit) ty
      = Inr (leaderboard_message_of (PyStr ''month'')
          (ranking_in_window tz (\<lambda>i. clock i - 30 * 86400000000) ty limit all_users))"
    by (rule board) (simp_all add: valid_period_def leaderboard_cutoff_def timedelta_days_def)
  show "beer_leaderboard tz all_users clock (PyStr ''year'') (Some limit) ty
      = Inr (leaderboard_message_of (PyStr ''year'')
          (ranking_in_window tz (\<lambda>i. clock i - 365 * 86400000000) ty limit all_users))"
    by (rule board) (simp_all add: valid_period_def leaderboard_cutoff_def timedelta_days_def)
qed

theorem period_cutoffs_witness:
  "beer_stats cet
     [\<lparr>user_id = 1, username = ''ann'',
       beers = Some [\<lparr>beer_id = ''e1'', timestamp = 63868672800000000, btype = None\<rparr>,
                     \<lparr>beer_id = ''e2'', timestamp = 63872478000000000,
                      btype = Some (PyStr ''beer'')\<rparr>,
                     \<lparr>beer_id = ''e3'', timestamp = 63872526600000000,
                      btype = Some (PyStr ''cider'')\<rparr>],
       total_beers = Some 2, total_ciders = Some 1\<rparr>]
     1 63872539200000000 (PyStr ''day'') (PyStr ''all'')
   = Inr (Has_drunk 2)
   \<and> beer_leaderboard cet
     [\<lparr>user_id = 1, username = ''ann'',
       beers = Some [\<lparr>beer_id = ''e1'', timestamp = 63868672800000000, btype = None\<rparr>,
                     \<lparr>beer_id = ''e2'', timestamp = 63872478000000000,
                      btype = Some (PyStr ''beer'')\<rparr>,
                     \<lparr>beer_id = ''e3'', timestamp = 63872526600000000,
                      btype = Some (PyStr ''cider'')\<rparr>],
       total_beers = Some 2, total_ciders = Some 1\<rparr>]
     (steady_clock 63872539200000000) (PyStr ''day'') (Some 10) (PyStr ''all'')
   = Inr (Top_beer_drinkers [(''ann'', 1, 1, 2, 1)])"
proof -
  let ?bs = "[\<lparr>beer_id = ''e1'', timestamp = 63868672800000000, btype = None\<rparr>,
              \<lparr>beer_id = ''e2'', timestamp = 63872478000000000,
               btype = Some (PyStr ''beer'')\<rparr>,
              \<lparr>beer_id = ''e3'', timestamp = 63872526600000000,
               btype = Some (PyStr ''cider'')\<rparr>]"
  let ?ann = "\<lparr>user_id = 1, username = ''ann'', beers = Some ?bs,
               total_beers = Some 2, total_ciders = Some 1\<rparr>"
  let ?tz = "cet"
  have ty: "valid_drink_filter (PyStr ''all'')"
    by (simp add: valid_drink_filter_def)
  have stats: "find_one_user_id [?ann] 1 = Some ?ann \<and> beers ?ann = Some ?bs \<and> ?bs \<noteq> []"
    by (simp add: find_one_user_id_def)
  have board: "[?ann] \<noteq> [] \<and> 1 \<le> (10::int)
      \<and> (\<forall>u \<in> set [?ann]. nonempty_log u \<longrightarrow> has_both_counters u)"
    by (simp add: has_both_counters_def)
  note inst = period_cutoffs [OF ty, of "[?ann]" 1 ?ann ?bs ?tz 63872539200000000
      "[?ann]" 10 "steady_clock 63872539200000000"]
  from inst stats
  have "beer_stats ?tz [?ann] 1 63872539200000000 (PyStr ''day'') (PyStr ''all'')
      = Inr (Has_drunk (window_count ?tz (63872539200000000 - 86400000000) (PyStr ''all'') ?bs))"
    by blast
  moreover from inst board
  have "beer_leaderboard ?tz [?ann] (steady_clock 63872539200000000) (PyStr ''day'') (Some 10)
      (PyStr ''all'')
      = Inr (leaderboard_message_of (PyStr ''day'')
          (ranking_in_window ?tz
             (\<lambda>i. steady_clock 63872539200000000 i
                  - steady_clock 63872539200000000 i mod 86400000000)
             (PyStr ''all'') 10 [?ann]))"
    by blast
  ultimately show ?thesis
    by (simp add: window_count_def filterByType_all ranking_in_window_def count_in_window_def
        nonempty_log_def get_default_def py_sorted_reverse_def leaderboard_message_of_def
        cet_def steady_clock_def)
qed

section \<open>Records without counters\<close>

text \<open>
  C10. The leaderboard returns a message for every period, type filter, limit and clock
  if and only if every record with a non-empty list of events carries both counters. The
  count tolerates a missing counter, the entry does not: for a record with an event \<open>e\<close>
  that lacks a counter, the leaderboard of the year for all types, asked at the time of
  \<open>e\<close>, raises \<^verbatim>\<open>KeyError\<close>. (A query in which the count of such a record is 0 drops the
  record before its counters are read, as the second part of the witness shows.)
\<close>

theorem leaderboard_total_iff_counters:
  "((\<forall>clock period limit ty. valid_period period \<longrightarrow> valid_drink_filter ty \<longrightarrow>
       (\<exists>m. beer_leaderboard tz all_users clock period limit ty = Inr m))
    \<longleftrightarrow> (\<forall>u \<in> set all_users. nonempty_log u \<longrightarrow> has_both_counters u))
   \<and> (u \<in> set all_users \<and> beers u = Some (e # es) \<and> \<not> has_both_counters u \<longrightarrow>
        beer_leaderboard tz all_users (steady_clock (tz (timestamp e))) (PyStr ''year'') limit
          (PyStr ''all'') = Inl KeyError)"
proof -
  have fails: "beer_leaderboard tz all_users (steady_clock (tz (timestamp e'))) (PyStr ''year'') limit'
          (PyStr ''all'') = Inl KeyError"
    if u': "u' \<in> set all_users" and bs: "beers u' = Some (e' # es')"
      and legacy: "\<not> has_both_counters u'" for u' e' es' limit'
  proof -
    define clock where "clock = steady_clock (tz (timestamp e'))"
    have ty: "valid_drink_filter (PyStr ''all'')"
      by (simp add: valid_drink_filter_def)
    have period: "valid_period (PyStr ''year'')"
      by (simp add: valid_period_def)
    have "0 < ranked_count tz clock (PyStr ''year'') (PyStr ''all'') j u'" for j
      using bs
      by (simp add: ranked_count_def leaderboard_cutoff_def window_count_def filterByType_all
          get_default_def timedelta_days_def clock_def steady_clock_def)
    moreover have "nonempty_log u'"
      using bs by (simp add: nonempty_log_def)
    ultimately
    have "\<exists>u \<in> set all_users. nonempty_log u \<and> \<not> has_both_counters u
        \<and> (\<forall>j. 0 < ranked_count tz clock (PyStr ''year'') (PyStr ''all'') j u)"
      using u' legacy by blast
    moreover have "leaderboard_total_count tz (clock j) (PyStr ''year'') (PyStr ''all'') w bs'
        = Inr (ranked_count tz clock (PyStr ''year'') (PyStr ''all'') j w)"
      if "beers w = Some bs'" and "bs' \<noteq> []" for j w bs'
      using ty period that(1) by (rule leaderboard_total_count_ranked)
    ultimately have "leaderboard_loop tz clock (PyStr ''year'') (PyStr ''all'') 0 all_users []
        = Inl KeyError"
      by (intro leaderboard_loop_KeyError) blast+
    with u' show ?thesis
      by (auto simp: beer_leaderboard_def clock_def)
  qed
  have total: "\<exists>m. beer_leaderboard tz all_users clock period limit' ty = Inr m"
    if "\<forall>u \<in> set all_users. nonempty_log u \<longrightarrow> has_both_counters u"
      and "valid_period period" and "valid_drink_filter ty" for clock period limit' ty
  proof (cases "all_users = []")
    case True
    then show ?thesis
      by (simp add: beer_leaderboard_def)
  next
    case False
    from beer_leaderboard_complete [OF that(3,2) False that(1)] show ?thesis
      by blast
  qed
  have only: "\<forall>u \<in> set all_users. nonempty_log u \<longrightarrow> has_both_counters u"
    if always: "\<forall>clock period limit ty. valid_period period \<longrightarrow> valid_drink_filter ty \<longrightarrow>
       (\<exists>m. beer_leaderboard tz all_users clock period limit ty = Inr m)"
  proof (intro ballI impI)
    fix u'
    assume u': "u' \<in> set all_users" and "nonempty_log u'"
    then obtain e' es' where bs: "beers u' = Some (e' # es')"
      by (auto simp: nonempty_log_def neq_Nil_conv split: option.splits)
    show "has_both_counters u'"
    proof (rule ccontr)
      assume "\<not> has_both_counters u'"
      from fails [OF u' bs this]
      have "beer_leaderboard tz all_users (steady_clock (tz (timestamp e'))) (PyStr ''year'') None
          (PyStr ''all'') = Inl KeyError" .
      moreover from always
      have "\<exists>m. beer_leaderboard tz all_users (steady_clock (tz (timestamp e'))) (PyStr ''year'') None
          (PyStr ''all'') = Inr m"
        by (simp add: valid_period_def valid_drink_filter_def)
      ultimately show False
        by simp
    qed
  qed
  from fails total only show ?thesis
    by blast
qed

theorem leaderboard_total_iff_counters_witness:
  "beer_leaderboard cet
     [\<lparr>user_id = 1, username = ''ann'',
       beers = Some [\<lparr>beer_id = ''e1'', timestamp = 63868672800000000, btype = None\<rparr>,
                     \<lparr>beer_id = ''e2'', timestamp = 63872478000000000, btype = None\<rparr>],
       total_beers = Some 2, total_ciders = None\<rparr>]
     (steady_clock (cet 63868672800000000)) (PyStr ''year'') (Some 10) (PyStr ''all'')
   = Inl KeyError
   \<and> beer_leaderboard cet
     [\<lparr>user_id = 1, username = ''ann'',
       beers = Some [\<lparr>beer_id = ''e1'', timestamp = 63868672800000000, btype = None\<rparr>,
                     \<lparr>beer_id = ''e2'', timestamp = 63872478000000000, btype = None\<rparr>],
       total_beers = Some 2, total_ciders = None\<rparr>]
     (steady_clock 63872539200000000) PyNone (Some 10) (PyStr ''cider'')
   = Inr (No_beers_logged_in_the_last PyNone)"
proof -
  let ?e1 = "\<lparr>beer_id = ''e1'', timestamp = 63868672800000000, btype = None\<rparr>"
  let ?e2 = "\<lparr>beer_id = ''e2'', timestamp = 63872478000000000, btype = None\<rparr>"
  let ?ann = "\<lparr>user_id = 1, username = ''ann'', beers = Some [?e1, ?e2],
               total_beers = Some 2, total_ciders = None\<rparr>"
  let ?tz = "cet"
  have legacy: "?ann \<in> set [?ann] \<and> beers ?ann = Some (?e1 # [?e2]) \<and> \<not> has_both_counters ?ann"
    by (simp add: has_both_counters_def)
  from leaderboard_total_iff_counters [of ?tz "[?ann]" ?ann ?e1 "[?e2]" "Some 10"] legacy
  have "beer_leaderboard ?tz [?ann] (steady_clock (?tz (timestamp ?e1))) (PyStr ''year'') (Some 10)
      (PyStr ''all'') = Inl KeyError"
    by blast
  moreover have "beer_leaderboard ?tz [?ann] (steady_clock 63872539200000000) PyNone (Some 10)
      (PyStr ''cider'') = Inr (No_beers_logged_in_the_last PyNone)"
    by (simp add: beer_leaderboard_def leaderboard_total_count_def truthy_def get_default_def
        py_sorted_reverse_def py_slice_def)
  ultimately show ?thesis
    by simp
qed

end
